theory Spec2Isabelle
  imports Main "HOL-Library.AList"
begin

section \<open>Python values\<close>

text \<open>
  Python strings are modelled as HOL strings; \<open>lower\<close>, \<open>upper\<close> and \<open>strip\<close> act on
  the ASCII letters and the ASCII whitespace characters, as \<open>str.lower\<close>, \<open>str.upper\<close>
  and \<open>str.strip\<close> do on ASCII text.
\<close>

definition lower_char :: "char \<Rightarrow> char" where
  "lower_char c = (let n = (of_char c :: nat) in if 65 \<le> n \<and> n \<le> 90 then char_of (n + 32) else c)"

definition upper_char :: "char \<Rightarrow> char" where
  "upper_char c = (let n = (of_char c :: nat) in if 97 \<le> n \<and> n \<le> 122 then char_of (n - 32) else c)"

definition lower :: "string \<Rightarrow> string" where
  "lower s = map lower_char s"

definition upper :: "string \<Rightarrow> string" where
  "upper s = map upper_char s"

definition is_space :: "char \<Rightarrow> bool" where
  "is_space c = (let n = (of_char c :: nat) in (9 \<le> n \<and> n \<le> 13) \<or> (28 \<le> n \<and> n \<le> 32))"

definition strip :: "string \<Rightarrow> string" where
  "strip s = rev (dropWhile is_space (rev (dropWhile is_space s)))"

definition quoted :: "string \<Rightarrow> string" where
  "quoted s = CHR 0x27 # s @ [CHR 0x27]"

definition rstrip_slash :: "string \<Rightarrow> string" where
  "rstrip_slash s = rev (dropWhile (\<lambda>c. c = CHR ''/'') (rev s))"

text \<open>
  \<open>str.replace(old, new)\<close>: every non-overlapping occurrence of \<open>old\<close>, from the left.
  All call sites pass a non-empty literal placeholder as \<open>old\<close>.
\<close>

function replace :: "string \<Rightarrow> string \<Rightarrow> string \<Rightarrow> string" where
  "replace old new [] = []"
| "replace old new (c # cs) =
     (if old \<noteq> [] \<and> take (length old) (c # cs) = old
      then new @ replace old new (drop (length old) (c # cs))
      else c # replace old new cs)"
  by pat_completeness auto
termination
  by (relation "measure (\<lambda>(old, new, s). length s)") auto

text \<open>
  Exceptions: the classes the code distinguishes in its \<open>except\<close> clauses, each with the
  text that \<open>str(e)\<close> gives. \<open>Timeout\<close> and \<open>HTTPError\<close> are subclasses of
  \<open>RequestException\<close>; every class is a subclass of \<open>Exception\<close>.
\<close>

datatype py_exc =
    Timeout string
  | HTTPError string
  | RequestException string
  | AttributeError string
  | TypeError string
  | ValueError string
  | ValidationError string
  | OverflowError string
  | SQLAlchemyError string

fun exc_str :: "py_exc \<Rightarrow> string" where
  "exc_str (Timeout m) = m"
| "exc_str (HTTPError m) = m"
| "exc_str (RequestException m) = m"
| "exc_str (AttributeError m) = m"
| "exc_str (TypeError m) = m"
| "exc_str (ValueError m) = m"
| "exc_str (ValidationError m) = m"
| "exc_str (OverflowError m) = m"
| "exc_str (SQLAlchemyError m) = m"

fun is_Timeout :: "py_exc \<Rightarrow> bool" where
  "is_Timeout (Timeout m) = True"
| "is_Timeout e = False"

fun is_RequestException :: "py_exc \<Rightarrow> bool" where
  "is_RequestException (Timeout m) = True"
| "is_RequestException (HTTPError m) = True"
| "is_RequestException (RequestException m) = True"
| "is_RequestException e = False"

text \<open>A decoded JSON document (\<open>json.loads\<close>): None, bool, int, float, str, list, dict.
  Python's binary64 floats are kept abstract: the type \<open>'f\<close> stands for \<open>float\<close>.
  A dict is an association list with distinct keys, in insertion order.\<close>

datatype 'f json =
    JNull
  | JBool bool
  | JInt int
  | JFloat 'f
  | JStr string
  | JArr "'f json list"
  | JObj "(string \<times> 'f json) list"

type_synonym 'f dict = "(string \<times> 'f json) list"

definition dict_get :: "'f dict \<Rightarrow> string \<Rightarrow> 'f json \<Rightarrow> 'f json" where
  "dict_get d k dflt = (case map_of d k of None \<Rightarrow> dflt | Some v \<Rightarrow> v)"

definition dict_set :: "'f dict \<Rightarrow> string \<Rightarrow> 'f json \<Rightarrow> 'f dict" where
  "dict_set d k v = AList.update k v d"

fun type_name :: "'f json \<Rightarrow> string" where
  "type_name JNull = ''NoneType''"
| "type_name (JBool b) = ''bool''"
| "type_name (JInt i) = ''int''"
| "type_name (JFloat x) = ''float''"
| "type_name (JStr s) = ''str''"
| "type_name (JArr xs) = ''list''"
| "type_name (JObj d) = ''dict''"

definition no_attribute :: "'f json \<Rightarrow> string \<Rightarrow> py_exc" where
  "no_attribute v a =
     AttributeError (quoted (type_name v) @ '' object has no attribute '' @ quoted a)"

section \<open>The environment\<close>

record 'f request =
  req_method :: string
  req_url :: string
  req_headers :: "(string \<times> string) list"
  req_params :: "(string \<times> string) list option"
  req_json :: "'f json"
  req_auth :: "(string \<times> string) option"
  req_timeout :: int

record 'f response =
  resp_status_code :: nat
  resp_text :: string
  resp_json :: "'f json option"

text \<open>
  What the code calls but does not define: the operations on floats, the libraries
  (\<open>requests\<close>, \<open>jsonpath_ng\<close>, \<open>json\<close>, \<open>cryptography\<close>, \<open>uuid\<close>) and the
  failures of the database connection. Every function that uses one of them takes the
  environment as its first argument.
  \<^item> \<open>fsum xs\<close> is \<open>sum(xs)\<close>, \<open>fdiv x n\<close> is \<open>x / n\<close> for an int \<open>n\<close>, \<open>fge x y\<close>
    is \<open>x >= y\<close>, \<open>flit s\<close> is the float literal written \<open>s\<close>, \<open>fnonzero x\<close> is
    \<open>bool(x)\<close>, \<open>f_of_int\<close> and \<open>f_of_str\<close> are \<open>float(i)\<close> and \<open>float(s)\<close> (\<open>None\<close>
    when \<open>float(s)\<close> raises ValueError).
  \<^item> \<open>http_request\<close> is \<open>requests.request\<close>: it raises or returns a response;
    \<open>resp_json\<close> is \<open>None\<close> when \<open>response.json()\<close> raises ValueError;
    \<open>http_error_message\<close> is the text of the HTTPError of \<open>raise_for_status\<close>.
  \<^item> \<open>jsonpath path doc\<close> is \<open>[m.value for m in parse(path).find(doc)]\<close>, \<open>None\<close> when
    it raises.
  \<^item> \<open>json_loads\<close> is \<open>json.loads\<close>, \<open>None\<close> on JSONDecodeError.
  \<^item> \<open>fernet_decrypt\<close> is the body of the \<open>try\<close> in \<open>decrypt_value\<close>, \<open>None\<close> when
    it raises.
  \<^item> \<open>py_str\<close> is \<open>str(v)\<close>; \<open>uuid4 n\<close> is the n-th value of \<open>str(uuid4())\<close>.
  \<^item> \<open>db_fault n\<close> tells whether the n-th operation sent to the database raises.
\<close>

record 'f env =
  fsum :: "'f list \<Rightarrow> 'f"
  fdiv :: "'f \<Rightarrow> nat \<Rightarrow> 'f"
  fge :: "'f \<Rightarrow> 'f \<Rightarrow> bool"
  flit :: "string \<Rightarrow> 'f"
  fnonzero :: "'f \<Rightarrow> bool"
  f_of_int :: "int \<Rightarrow> 'f"
  f_of_str :: "string \<Rightarrow> 'f option"
  http_request :: "'f request \<Rightarrow> py_exc + 'f response"
  http_error_message :: "'f response \<Rightarrow> string"
  jsonpath :: "'f json \<Rightarrow> 'f json \<Rightarrow> 'f json list option"
  json_loads :: "string \<Rightarrow> 'f json option"
  fernet_decrypt :: "string \<Rightarrow> string option"
  py_str :: "'f json \<Rightarrow> string"
  uuid4 :: "nat \<Rightarrow> string"
  db_fault :: "nat \<Rightarrow> bool"

fun truthy :: "'f env \<Rightarrow> 'f json \<Rightarrow> bool" where
  "truthy env JNull = False"
| "truthy env (JBool b) = b"
| "truthy env (JInt i) = (i \<noteq> 0)"
| "truthy env (JFloat x) = fnonzero env x"
| "truthy env (JStr s) = (s \<noteq> [])"
| "truthy env (JArr xs) = (xs \<noteq> [])"
| "truthy env (JObj d) = (d \<noteq> [])"

text \<open>\<open>if s:\<close> for an Optional[str].\<close>

fun str_truthy :: "string option \<Rightarrow> bool" where
  "str_truthy None = False"
| "str_truthy (Some s) = (s \<noteq> [])"

section \<open>Models (app/models/api_source.py)\<close>

datatype AuthenticationType = API_KEY | BASIC_AUTH | BEARER_TOKEN | OAUTH | NONE

fun auth_value :: "AuthenticationType \<Rightarrow> string" where
  "auth_value API_KEY = ''api_key''"
| "auth_value BASIC_AUTH = ''basic_auth''"
| "auth_value BEARER_TOKEN = ''bearer_token''"
| "auth_value OAUTH = ''oauth''"
| "auth_value NONE = ''none''"

datatype UpdateMode = MANUAL | AUTO

record 'f APISource =
  src_id :: string
  src_name :: string
  src_display_name :: string
  src_base_url :: string
  src_supported_ioc_types :: "string list option"
  src_authentication_type :: AuthenticationType
  src_request_config :: "'f dict option"
  src_response_config :: "'f dict option"
  src_is_active :: bool

record APIKey =
  key_id :: string
  key_user_id :: string
  key_api_source_id :: string
  key_api_key :: string
  key_username :: "string option"
  key_password :: "string option"
  key_api_url :: "string option"
  key_is_active :: bool
  key_update_mode :: UpdateMode
  key_last_used :: "int option"

section \<open>Schemas (app/schemas/ioc.py)\<close>

record IOCQueryRequest =
  payload_ioc_type :: string
  payload_ioc_value :: string
  payload_sources :: "string list option"

record 'f IOCSourceResult =
  source :: string
  status :: string
  risk_score :: "'f option"
  description :: "string option"
  raw :: "'f dict option"

record 'f IOCQueryResponse =
  r_ioc_type :: string
  r_ioc_value :: string
  overall_risk :: "string option"
  queried_sources :: "'f IOCSourceResult list"
  queried_at :: int

section \<open>DynamicAPIClient (app/services/dynamic_api_client.py)\<close>

record 'f DynamicAPIClient =
  api_source :: "'f APISource"
  api_key :: string
  username :: "string option"
  password :: "string option"
  base_url :: string
  request_config :: "'f dict"
  response_config :: "'f dict"

text \<open>\<open>__init__\<close>: \<open>x or y\<close> takes \<open>y\<close> when \<open>x\<close> is None or empty.\<close>

definition new_client ::
  "'f APISource \<Rightarrow> string \<Rightarrow> string option \<Rightarrow> string option \<Rightarrow> string option \<Rightarrow> 'f DynamicAPIClient" where
  "new_client src k u pw api_url_override =
     \<lparr> api_source = src, api_key = k, username = u, password = pw,
       base_url = (if str_truthy api_url_override then the api_url_override else src_base_url src),
       request_config = (case src_request_config src of None \<Rightarrow> [] | Some d \<Rightarrow> d),
       response_config = (case src_response_config src of None \<Rightarrow> [] | Some d \<Rightarrow> d) \<rparr>"

text \<open>\<open>v.replace(old, new)\<close> on a template value: AttributeError unless \<open>v\<close> is a str.\<close>

fun json_replace :: "'f json \<Rightarrow> string \<Rightarrow> string \<Rightarrow> py_exc + string" where
  "json_replace (JStr s) old new = Inr (replace old new s)"
| "json_replace v old new = Inl (no_attribute v ''replace'')"

definition replace_credentials :: "'f DynamicAPIClient \<Rightarrow> string \<Rightarrow> string" where
  "replace_credentials c v =
     (let v1 = (if str_truthy (username c) then replace ''{username}'' (the (username c)) v else v)
      in if str_truthy (password c) then replace ''{password}'' (the (password c)) v1 else v1)"

definition build_url :: "'f DynamicAPIClient \<Rightarrow> string \<Rightarrow> string \<Rightarrow> py_exc + string" where
  "build_url c ioc_type ioc_value =
     (let endpoint_template = dict_get (request_config c) ''endpoint_template'' (JStr ''/{ioc_type}/{ioc_value}'')
      in case json_replace endpoint_template ''{ioc_type}'' ioc_type of
           Inl e \<Rightarrow> Inl e
         | Inr e1 \<Rightarrow> Inr (rstrip_slash (base_url c) @ replace ''{ioc_value}'' ioc_value e1))"

fun build_headers_items :: "'f DynamicAPIClient \<Rightarrow> 'f dict \<Rightarrow> py_exc + (string \<times> string) list" where
  "build_headers_items c [] = Inr []"
| "build_headers_items c ((key, value_template) # rest) =
     (case json_replace value_template ''{api_key}'' (api_key c) of
        Inl e \<Rightarrow> Inl e
      | Inr v \<Rightarrow>
          (case build_headers_items c rest of
             Inl e \<Rightarrow> Inl e
           | Inr processed \<Rightarrow> Inr ((key, replace_credentials c v) # processed)))"

definition build_headers :: "'f DynamicAPIClient \<Rightarrow> py_exc + (string \<times> string) list" where
  "build_headers c =
     (case dict_get (request_config c) ''headers'' (JObj []) of
        JObj headers \<Rightarrow> build_headers_items c headers
      | v \<Rightarrow> Inl (no_attribute v ''items''))"

definition replace_ioc :: "'f DynamicAPIClient \<Rightarrow> string \<Rightarrow> string \<Rightarrow> 'f json \<Rightarrow> py_exc + string" where
  "replace_ioc c ioc_type ioc_value value_template =
     (case json_replace value_template ''{api_key}'' (api_key c) of
        Inl e \<Rightarrow> Inl e
      | Inr v \<Rightarrow> Inr (replace ''{ioc_value}'' ioc_value (replace ''{ioc_type}'' ioc_type v)))"

fun build_params_items ::
  "'f DynamicAPIClient \<Rightarrow> string \<Rightarrow> string \<Rightarrow> 'f dict \<Rightarrow> py_exc + (string \<times> string) list" where
  "build_params_items c ioc_type ioc_value [] = Inr []"
| "build_params_items c ioc_type ioc_value ((key, value_template) # rest) =
     (case replace_ioc c ioc_type ioc_value value_template of
        Inl e \<Rightarrow> Inl e
      | Inr v \<Rightarrow>
          (case build_params_items c ioc_type ioc_value rest of
             Inl e \<Rightarrow> Inl e
           | Inr processed \<Rightarrow> Inr ((key, replace_credentials c v) # processed)))"

definition build_params ::
  "'f DynamicAPIClient \<Rightarrow> string \<Rightarrow> string \<Rightarrow> py_exc + (string \<times> string) list" where
  "build_params c ioc_type ioc_value =
     (case dict_get (request_config c) ''query_params'' (JObj []) of
        JObj params \<Rightarrow> build_params_items c ioc_type ioc_value params
      | v \<Rightarrow> Inl (no_attribute v ''items''))"

text \<open>The dict branch of \<open>_build_body\<close> substitutes in the top-level string values only.\<close>

fun build_body_item :: "'f DynamicAPIClient \<Rightarrow> string \<Rightarrow> string \<Rightarrow> string \<times> 'f json \<Rightarrow> string \<times> 'f json" where
  "build_body_item c ioc_type ioc_value (key, JStr v) =
     (key, JStr (replace ''{ioc_value}'' ioc_value
                  (replace ''{ioc_type}'' ioc_type (replace ''{api_key}'' (api_key c) v))))"
| "build_body_item c ioc_type ioc_value (key, v) = (key, v)"

definition build_body :: "'f env \<Rightarrow> 'f DynamicAPIClient \<Rightarrow> string \<Rightarrow> string \<Rightarrow> 'f json" where
  "build_body env c ioc_type ioc_value =
     (let body_template = dict_get (request_config c) ''body_template'' JNull
      in if \<not> truthy env body_template then JNull
         else case body_template of
             JStr t \<Rightarrow>
               (let body_str = replace_credentials c
                      (replace ''{ioc_value}'' ioc_value
                        (replace ''{ioc_type}'' ioc_type (replace ''{api_key}'' (api_key c) t)))
                in case json_loads env body_str of
                     None \<Rightarrow> JObj [(''value'', JStr body_str)]
                   | Some v \<Rightarrow> v)
           | JObj d \<Rightarrow> JObj (map (build_body_item c ioc_type ioc_value) d)
           | v \<Rightarrow> JNull)"

text \<open>
  The first part of \<open>query\<close>, up to the \<open>try\<close>: the request is built from the
  templates. An exception raised here is not caught by \<open>query\<close>.
\<close>

fun json_upper :: "'f json \<Rightarrow> py_exc + string" where
  "json_upper (JStr s) = Inr (upper s)"
| "json_upper v = Inl (no_attribute v ''upper'')"

definition build_request ::
  "'f env \<Rightarrow> 'f DynamicAPIClient \<Rightarrow> string \<Rightarrow> string \<Rightarrow> int \<Rightarrow> py_exc + 'f request" where
  "build_request env c ioc_type ioc_value timeout =
     (case json_upper (dict_get (request_config c) ''method'' (JStr ''GET'')) of
        Inl e \<Rightarrow> Inl e
      | Inr method \<Rightarrow>
     (case build_url c ioc_type ioc_value of
        Inl e \<Rightarrow> Inl e
      | Inr url \<Rightarrow>
     (case build_headers c of
        Inl e \<Rightarrow> Inl e
      | Inr headers \<Rightarrow>
     (case (if method = ''GET'' then map_sum id Some (build_params c ioc_type ioc_value) else Inr None) of
        Inl e \<Rightarrow> Inl e
      | Inr params \<Rightarrow>
          (let body = (if method \<in> set [''POST'', ''PUT'', ''PATCH'']
                       then build_body env c ioc_type ioc_value else JNull);
               auth = (if src_authentication_type (api_source c) = BASIC_AUTH
                          \<and> str_truthy (username c) \<and> str_truthy (password c)
                       then Some (the (username c), the (password c)) else None);
               headers' = (if src_authentication_type (api_source c) = BEARER_TOKEN
                           then AList.update ''Authorization'' (''Bearer '' @ api_key c) headers
                           else headers)
           in Inr \<lparr> req_method = method, req_url = url, req_headers = headers',
                     req_params = params, req_json = body, req_auth = auth,
                     req_timeout = timeout \<rparr>)))))"

text \<open>\<open>_extract_value\<close> catches every exception of the JSONPath library.\<close>

definition extract_value :: "'f env \<Rightarrow> 'f json \<Rightarrow> 'f json \<Rightarrow> 'f json" where
  "extract_value env data json_path =
     (if \<not> truthy env json_path then JNull
      else case jsonpath env json_path data of
             None \<Rightarrow> JNull
           | Some [] \<Rightarrow> JNull
           | Some (m # ms) \<Rightarrow> m)"

definition parse_response :: "'f env \<Rightarrow> 'f DynamicAPIClient \<Rightarrow> 'f json \<Rightarrow> 'f dict" where
  "parse_response env c response_data =
     (let parsed = [(''raw'', response_data)];
          risk_score_path = dict_get (response_config c) ''risk_score_path'' JNull;
          parsed1 = (if truthy env risk_score_path
                     then dict_set parsed ''risk_score'' (extract_value env response_data risk_score_path)
                     else parsed);
          status_path = dict_get (response_config c) ''status_path'' JNull;
          parsed2 = (if truthy env status_path
                     then dict_set parsed1 ''status'' (extract_value env response_data status_path)
                     else parsed1);
          data_path = dict_get (response_config c) ''data_path'' (JStr ''$'')
      in if truthy env data_path
         then dict_set parsed2 ''data''
                (let v = extract_value env response_data data_path
                 in if truthy env v then v else response_data)
         else parsed2)"

text \<open>The three \<open>except\<close> clauses of \<open>query\<close>, in their order.\<close>

definition error_dict :: "'f DynamicAPIClient \<Rightarrow> string \<Rightarrow> string \<Rightarrow> py_exc \<Rightarrow> 'f dict" where
  "error_dict c ioc_type ioc_value e =
     (if is_Timeout e then
        [(''source'', JStr (src_name (api_source c))), (''ioc_type'', JStr ioc_type),
         (''ioc_value'', JStr ioc_value), (''status'', JStr ''timeout''),
         (''error'', JStr ''Request timeout'')]
      else if is_RequestException e then
        [(''source'', JStr (src_name (api_source c))), (''ioc_type'', JStr ioc_type),
         (''ioc_value'', JStr ioc_value), (''status'', JStr ''error''),
         (''error'', JStr (exc_str e))]
      else
        [(''source'', JStr (src_name (api_source c))), (''ioc_type'', JStr ioc_type),
         (''ioc_value'', JStr ioc_value), (''status'', JStr ''error''),
         (''error'', JStr (exc_str e))])"

text \<open>\<open>raise_for_status\<close> raises HTTPError for the status codes 400 to 599.\<close>

definition raise_for_status :: "'f env \<Rightarrow> 'f response \<Rightarrow> py_exc option" where
  "raise_for_status env r =
     (if 400 \<le> resp_status_code r \<and> resp_status_code r < 600
      then Some (HTTPError (http_error_message env r)) else None)"

text \<open>The body of the \<open>try\<close> in \<open>query\<close>, with its \<open>except\<close> clauses.\<close>

definition send_request ::
  "'f env \<Rightarrow> 'f DynamicAPIClient \<Rightarrow> string \<Rightarrow> string \<Rightarrow> 'f request \<Rightarrow> 'f dict" where
  "send_request env c ioc_type ioc_value req =
     (case http_request env req of
        Inl e \<Rightarrow> error_dict c ioc_type ioc_value e
      | Inr response \<Rightarrow>
          (case raise_for_status env response of
             Some e \<Rightarrow> error_dict c ioc_type ioc_value e
           | None \<Rightarrow>
               (let response_data = (case resp_json response of
                                       Some j \<Rightarrow> j
                                     | None \<Rightarrow> JObj [(''text'', JStr (resp_text response))]);
                    parsed = parse_response env c response_data;
                    parsed1 = dict_set parsed ''source'' (JStr (src_name (api_source c)));
                    parsed2 = dict_set parsed1 ''ioc_type'' (JStr ioc_type);
                    parsed3 = dict_set parsed2 ''ioc_value'' (JStr ioc_value);
                    parsed4 = dict_set parsed3 ''status'' (JStr ''success'')
                in dict_set parsed4 ''http_status'' (JInt (int (resp_status_code response))))))"

definition query ::
  "'f env \<Rightarrow> 'f DynamicAPIClient \<Rightarrow> string \<Rightarrow> string \<Rightarrow> int \<Rightarrow> py_exc + 'f dict" where
  "query env c ioc_type ioc_value timeout =
     (case build_request env c ioc_type ioc_value timeout of
        Inl e \<Rightarrow> Inl e
      | Inr req \<Rightarrow> Inr (send_request env c ioc_type ioc_value req))"

section \<open>Models (app/models/ioc_query.py, watchlist.py, alert.py)\<close>

record 'f IOCQuery =
  iq_id :: string
  iq_user_id :: string
  iq_ioc_type :: string
  iq_ioc_value :: string
  iq_query_date :: int
  iq_results_json :: "string option \<times> 'f IOCSourceResult list"
  iq_risk_score :: "'f option"
  iq_status :: string

record 'f ThreatIntelligenceData =
  td_id :: string
  td_ioc_query_id :: string
  td_source_api :: string
  td_raw_data_json :: "'f dict option"
  td_processed_data_json :: "string \<times> 'f option \<times> string option"
  td_confidence_score :: "'f option"

datatype RiskThreshold = LOW | MEDIUM | HIGH | CRITICAL

datatype IOCStatus = CLEAN | SUSPICIOUS | MALICIOUS

datatype AlertSeverity = AlertSeverity_LOW | AlertSeverity_MEDIUM | AlertSeverity_HIGH | AlertSeverity_CRITICAL

datatype AlertType = WATCHLIST | IOC_QUERY | CVE | SYSTEM

record AssetWatchlist =
  wl_id :: string
  wl_user_id :: string
  wl_is_active :: bool
  wl_notification_enabled :: bool
  wl_check_interval :: int

record AssetWatchlistItem =
  item_id :: string
  item_watchlist_id :: string
  item_ioc_type :: string
  item_ioc_value :: string
  item_risk_threshold :: "RiskThreshold option"
  item_last_check_date :: "int option"
  item_last_risk_score :: "string option"
  item_last_status :: "IOCStatus option"
  item_is_active :: bool

record 'f AssetCheckHistory =
  h_id :: string
  h_watchlist_item_id :: string
  h_check_date :: int
  h_risk_score :: "string option"
  h_status :: "IOCStatus option"
  h_threat_intelligence_data :: "string option \<times> 'f IOCSourceResult list"
  h_sources_checked :: "string list"
  h_alert_triggered :: bool

record Alert =
  alert_id :: string
  alert_user_id :: string
  alert_watchlist_id :: "string option"
  alert_asset_id :: "string option"
  alert_type :: AlertType
  alert_severity :: AlertSeverity
  alert_title :: string
  alert_message :: "string option"
  alert_is_read :: bool
  alert_created_at :: int

section \<open>The state\<close>

datatype 'f row =
    IOCQueryRow "'f IOCQuery"
  | ThreatIntelligenceDataRow "'f ThreatIntelligenceData"
  | AssetCheckHistoryRow "'f AssetCheckHistory"
  | AlertRow Alert

text \<open>A value stored in Redis: one that \<open>IOCQueryResponse(**cached_data)\<close> accepts, one
  that it rejects, or an empty one.\<close>

datatype 'f redis_entry = Parsed "'f IOCQueryResponse" | Unparsable | Falsy

text \<open>
  The state the code reads and changes. Times are timezone-aware instants in microseconds
  (the columns are \<open>DateTime(timezone=True)\<close>, the code writes
  \<open>datetime.now(timezone.utc)\<close>), and \<open>clock\<close> is the current instant.
  \<^item> The database holds the committed tables; the session holds the rows added
    (\<open>session_new\<close>) and the rows flushed in the open transaction (\<open>session_flushed\<close>).
    \<open>db_ops\<close> counts the operations sent to the database.
    A change of an attribute of a loaded object (\<open>last_used\<close> of a credential, the fields
    of an item) is written to its table at once.
  \<^item> \<open>redis\<close> is the content of the Redis store, \<open>redis_up\<close> tells whether the client
    exists and answers; \<open>ioc_cache\<close> is the \<open>_store\<close> of the in-memory cache.
  \<^item> \<open>adapter_calls\<close> lists the calls of \<open>DynamicAPIClient.query\<close> (source name and
    credential), \<open>item_checks\<close> the items \<open>_check_watchlist_item\<close> was called on.
  \<^item> The clock stands still while one of the functions below runs.
\<close>

record 'f world =
  clock :: int
  db_ops :: nat
  uuid_count :: nat
  tbl_api_sources :: "'f APISource list"
  tbl_api_keys :: "APIKey list"
  tbl_watchlists :: "AssetWatchlist list"
  tbl_items :: "AssetWatchlistItem list"
  tbl_rows :: "'f row list"
  session_new :: "'f row list"
  session_flushed :: "'f row list"
  redis_up :: bool
  redis :: "string \<Rightarrow> 'f redis_entry option"
  ioc_cache :: "string \<times> string \<Rightarrow> ('f IOCQueryResponse \<times> int) option"
  adapter_calls :: "(string \<times> APIKey option) list"
  item_checks :: "string list"

subsection \<open>The database session\<close>

text \<open>Every operation sent to the database may raise; \<open>db_call\<close> tells whether this one
  does.\<close>

definition db_call :: "'f env \<Rightarrow> 'f world \<Rightarrow> bool \<times> 'f world" where
  "db_call env st = (db_fault env (db_ops st), st\<lparr>db_ops := Suc (db_ops st)\<rparr>)"

definition db_error :: py_exc where
  "db_error = SQLAlchemyError ''database error''"

definition db_add :: "'f row \<Rightarrow> 'f world \<Rightarrow> 'f world" where
  "db_add r st = st\<lparr>session_new := session_new st @ [r]\<rparr>"

definition db_flush :: "'f env \<Rightarrow> 'f world \<Rightarrow> (py_exc + unit) \<times> 'f world" where
  "db_flush env st =
     (case db_call env st of
        (True, st1) \<Rightarrow> (Inl db_error, st1)
      | (False, st1) \<Rightarrow>
          (Inr (), st1\<lparr>session_flushed := session_flushed st1 @ session_new st1,
                         session_new := []\<rparr>))"

definition db_commit :: "'f env \<Rightarrow> 'f world \<Rightarrow> (py_exc + unit) \<times> 'f world" where
  "db_commit env st =
     (case db_call env st of
        (True, st1) \<Rightarrow> (Inl db_error, st1)
      | (False, st1) \<Rightarrow>
          (Inr (), st1\<lparr>tbl_rows := tbl_rows st1 @ session_flushed st1 @ session_new st1,
                         session_new := [], session_flushed := []\<rparr>))"

text \<open>\<open>rollback\<close> ends the open transaction and empties the session.\<close>

definition db_rollback :: "'f world \<Rightarrow> 'f world" where
  "db_rollback st = st\<lparr>session_new := [], session_flushed := []\<rparr>"

section \<open>Encryption (app/core/encryption.py)\<close>

definition decrypt_value :: "'f env \<Rightarrow> string \<Rightarrow> string" where
  "decrypt_value env encrypted_value =
     (if encrypted_value = [] then []
      else case fernet_decrypt env encrypted_value of
             Some decrypted \<Rightarrow> decrypted
           | None \<Rightarrow> [])"

section \<open>Caches (app/services/redis_cache.py, app/services/cache.py)\<close>

text \<open>\<open>RedisCache.get\<close> and \<open>set\<close> catch every error of the client.\<close>

definition redis_cache_get :: "'f world \<Rightarrow> string \<Rightarrow> 'f redis_entry option" where
  "redis_cache_get st key = (if \<not> redis_up st then None else redis st key)"

definition redis_cache_set :: "string \<Rightarrow> 'f IOCQueryResponse \<Rightarrow> 'f world \<Rightarrow> 'f world" where
  "redis_cache_set key v st =
     (if \<not> redis_up st then st else st\<lparr>redis := (redis st)(key \<mapsto> Parsed v)\<rparr>)"

definition make_key :: "string \<Rightarrow> string \<Rightarrow> string \<times> string" where
  "make_key ioc_type ioc_value = (lower ioc_type, lower ioc_value)"

text \<open>The in-memory cache has a time-to-live of 300 seconds and evicts on read.\<close>

definition ttl :: int where
  "ttl = 300 * 1000000"

definition ioc_cache_get ::
  "string \<Rightarrow> string \<Rightarrow> 'f world \<Rightarrow> 'f IOCQueryResponse option \<times> 'f world" where
  "ioc_cache_get ioc_type ioc_value st =
     (let key = make_key ioc_type ioc_value
      in case ioc_cache st key of
           None \<Rightarrow> (None, st)
         | Some (response, stored_at) \<Rightarrow>
             if clock st - stored_at > ttl
             then (None, st\<lparr>ioc_cache := (ioc_cache st)(key := None)\<rparr>)
             else (Some response, st))"

definition ioc_cache_set :: "'f IOCQueryResponse \<Rightarrow> 'f world \<Rightarrow> 'f world" where
  "ioc_cache_set response st =
     st\<lparr>ioc_cache := (ioc_cache st)(make_key (r_ioc_type response) (r_ioc_value response)
                                        \<mapsto> (response, clock st))\<rparr>"

section \<open>IOCService (app/services/ioc_service.py)\<close>

definition calculate_overall_risk :: "'f env \<Rightarrow> 'f IOCSourceResult list \<Rightarrow> string option" where
  "calculate_overall_risk env results =
     (if results = [] then None
      else
        let valid_results = filter (\<lambda>r. risk_score r \<noteq> None \<and> status r = ''success'') results in
        if valid_results = [] then
          (let non_success_results = filter (\<lambda>r. status r \<noteq> ''success'') results in
           if non_success_results \<noteq> [] then Some ''unknown'' else None)
        else
          let risk_scores = map (\<lambda>r. the (risk_score r)) valid_results;
              avg_score = fdiv env (fsum env risk_scores) (length risk_scores)
          in if fge env avg_score (flit env ''0.8'') then Some ''high''
             else if fge env avg_score (flit env ''0.5'') then Some ''medium''
             else if fge env avg_score (flit env ''0.2'') then Some ''low''
             else Some ''clean'')"


definition get_risk_score_from_level :: "'f env \<Rightarrow> string option \<Rightarrow> 'f option" where
  "get_risk_score_from_level env risk_level =
     (if \<not> str_truthy risk_level then None
      else map_of [(''high'', flit env ''0.9''), (''medium'', flit env ''0.6''),
                   (''low'', flit env ''0.3''), (''clean'', flit env ''0.1''),
                   (''unknown'', flit env ''0.5'')] (lower (the risk_level)))"

text \<open>\<open>if sources:\<close> for the optional list of requested source names.\<close>

fun sources_given :: "string list option \<Rightarrow> bool" where
  "sources_given None = False"
| "sources_given (Some xs) = (xs \<noteq> [])"

text \<open>The two registry queries. The rows come back in table order.\<close>

definition get_active_api_keys ::
  "'f env \<Rightarrow> string list option \<Rightarrow> bool \<Rightarrow> 'f world
     \<Rightarrow> (py_exc + (APIKey \<times> 'f APISource) list) \<times> 'f world" where
  "get_active_api_keys env sources auto_mode_only st =
     (case db_call env st of
        (True, st1) \<Rightarrow> (Inl db_error, st1)
      | (False, st1) \<Rightarrow>
          (Inr (filter (\<lambda>(k, s).
                   key_api_source_id k = src_id s
                   \<and> key_is_active k
                   \<and> src_is_active s
                   \<and> (auto_mode_only \<longrightarrow> key_update_mode k = AUTO)
                   \<and> (sources_given sources \<longrightarrow> src_name s \<in> set (map lower (the sources))))
                 (List.product (tbl_api_keys st1) (tbl_api_sources st1))), st1))"

definition get_sources_without_auth ::
  "'f env \<Rightarrow> string list option \<Rightarrow> 'f world \<Rightarrow> (py_exc + 'f APISource list) \<times> 'f world" where
  "get_sources_without_auth env sources st =
     (case db_call env st of
        (True, st1) \<Rightarrow> (Inl db_error, st1)
      | (False, st1) \<Rightarrow>
          (Inr (filter (\<lambda>s.
                   src_is_active s
                   \<and> src_authentication_type s = NONE
                   \<and> (sources_given sources \<longrightarrow> src_name s \<in> set (map lower (the sources))))
                 (tbl_api_sources st1)), st1))"

text \<open>The check of the indicator type at the head of both single-source queries.\<close>

definition type_not_supported :: "'f APISource \<Rightarrow> string \<Rightarrow> bool" where
  "type_not_supported src ioc_type =
     (case src_supported_ioc_types src of
        None \<Rightarrow> False
      | Some ts \<Rightarrow> ts \<noteq> [] \<and> lower ioc_type \<notin> set (map lower ts))"

definition skipped_result :: "'f APISource \<Rightarrow> string \<Rightarrow> 'f IOCSourceResult" where
  "skipped_result src ioc_type =
     \<lparr> source = src_name src, status = ''skipped'', risk_score = None,
       description = Some (''IOC type '' @ quoted ioc_type @ '' not supported by ''
                           @ src_display_name src),
       raw = None \<rparr>"

definition error_result :: "'f APISource \<Rightarrow> string \<Rightarrow> 'f IOCSourceResult" where
  "error_result src msg =
     \<lparr> source = src_name src, status = ''error'', risk_score = None,
       description = Some msg, raw = None \<rparr>"

text \<open>\<open>str(v)\<close> and \<open>float(v)\<close> on a value taken from the response.\<close>

definition to_str :: "'f env \<Rightarrow> 'f json \<Rightarrow> string" where
  "to_str env v = (case v of JStr t \<Rightarrow> t | _ \<Rightarrow> py_str env v)"

fun py_float :: "'f env \<Rightarrow> 'f json \<Rightarrow> py_exc + 'f" where
  "py_float env (JFloat x) = Inr x"
| "py_float env (JInt i) = Inr (f_of_int env i)"
| "py_float env (JBool b) = Inr (f_of_int env (if b then 1 else 0))"
| "py_float env (JStr t) =
     (case f_of_str env t of
        Some x \<Rightarrow> Inr x
      | None \<Rightarrow> Inl (ValueError (''could not convert string to float: '' @ t)))"
| "py_float env v = Inl (TypeError (''float() argument must be a string or a real number, not '' @ type_name v))"

fun join :: "string \<Rightarrow> string list \<Rightarrow> string" where
  "join sep [] = []"
| "join sep [x] = x"
| "join sep (x # y # ys) = x @ sep @ join sep (y # ys)"

text \<open>The block "Build description from data".\<close>

definition build_description :: "'f env \<Rightarrow> 'f json \<Rightarrow> string option" where
  "build_description env data =
     (case data of
        JObj d \<Rightarrow>
          (let parts1 = (case map_of d ''description'' of
                           Some v \<Rightarrow> [to_str env v] | None \<Rightarrow> []);
               description_parts = (case map_of d ''status'' of
                           Some v \<Rightarrow> parts1 @ [''Status: '' @ to_str env v] | None \<Rightarrow> parts1)
           in if description_parts \<noteq> [] then Some (join '' | '' description_parts) else None)
      | _ \<Rightarrow> None)"

text \<open>
  The final \<open>IOCSourceResult(...)\<close> of both single-source queries: \<open>float(risk_score)\<close>
  is evaluated first, then the model validates that \<open>status\<close> is a str and \<open>raw\<close> a dict
  or None.
\<close>

definition make_result ::
  "'f env \<Rightarrow> 'f APISource \<Rightarrow> 'f json \<Rightarrow> 'f json \<Rightarrow> string option \<Rightarrow> 'f json
     \<Rightarrow> py_exc + 'f IOCSourceResult" where
  "make_result env src status_v risk_v descr raw_data =
     (case (if risk_v = JNull then Inr None else map_sum id Some (py_float env risk_v)) of
        Inl e \<Rightarrow> Inl e
      | Inr risk \<Rightarrow>
          (case status_v of
             JStr st_s \<Rightarrow>
               (let d = (if str_truthy descr then descr
                         else Some (''Query completed with status: '' @ st_s))
                in case raw_data of
                     JNull \<Rightarrow> Inr \<lparr> source = src_name src, status = st_s, risk_score = risk,
                                      description = d, raw = None \<rparr>
                   | JObj r \<Rightarrow> Inr \<lparr> source = src_name src, status = st_s, risk_score = risk,
                                       description = d, raw = Some r \<rparr>
                   | _ \<Rightarrow> Inl (ValidationError ''raw: Input should be a valid dictionary''))
           | _ \<Rightarrow> Inl (ValidationError ''status: Input should be a valid string'')))"

text \<open>The special handling of the Kaspersky zone.\<close>

definition zone_to_score :: "'f env \<Rightarrow> 'f APISource \<Rightarrow> 'f json \<Rightarrow> 'f json" where
  "zone_to_score env src risk_v =
     (case risk_v of
        JStr zone \<Rightarrow>
          if src_name src = ''kaspersky''
          then JFloat (case map_of [(''Red'', flit env ''0.9''), (''Yellow'', flit env ''0.6''),
                                    (''Green'', flit env ''0.3''), (''White'', flit env ''0.1''),
                                    (''Grey'', flit env ''0.1'')] zone of
                         Some x \<Rightarrow> x
                       | None \<Rightarrow> flit env ''0.5'')
          else risk_v
      | _ \<Rightarrow> risk_v)"

definition set_last_used :: "APIKey \<Rightarrow> 'f world \<Rightarrow> 'f world" where
  "set_last_used k st =
     st\<lparr>tbl_api_keys :=
          map (\<lambda>k'. if key_id k' = key_id k then k'\<lparr>key_last_used := Some (clock st)\<rparr> else k')
              (tbl_api_keys st)\<rparr>"

definition requires_auth :: "'f APISource \<Rightarrow> bool" where
  "requires_auth src = (lower (auth_value (src_authentication_type src)) \<noteq> ''none'')"

text \<open>\<open>if s and s.strip()\<close> for an encrypted column value.\<close>

definition present :: "string option \<Rightarrow> bool" where
  "present v = (str_truthy v \<and> strip (the v) \<noteq> [])"

definition decrypt_optional :: "'f env \<Rightarrow> string option \<Rightarrow> string option" where
  "decrypt_optional env v =
     (if present v
      then (let d = decrypt_value env (the v) in if d = [] \<or> strip d = [] then None else Some d)
      else None)"

text \<open>
  \<open>_query_single_source\<close>, from the creation of the client on: the call of the adapter,
  the update of \<open>last_used\<close>, and the result built from the adapter's answer.
\<close>

definition call_adapter ::
  "'f env \<Rightarrow> APIKey \<Rightarrow> 'f APISource \<Rightarrow> string \<Rightarrow> string \<Rightarrow> string \<Rightarrow> 'f world
     \<Rightarrow> (py_exc + 'f IOCSourceResult) \<times> 'f world" where
  "call_adapter env k src decrypted_key ioc_type ioc_value st =
     (let client = new_client src decrypted_key
                     (decrypt_optional env (key_username k))
                     (decrypt_optional env (key_password k)) (key_api_url k);
          st1 = st\<lparr>adapter_calls := adapter_calls st @ [(src_name src, Some k)]\<rparr>
      in case query env client ioc_type ioc_value 30 of
           Inl e \<Rightarrow> (Inl e, st1)
         | Inr result \<Rightarrow>
             (case db_commit env (set_last_used k st1) of
                (Inl e, st2) \<Rightarrow> (Inl e, st2)
              | (Inr u, st2) \<Rightarrow>
                  (make_result env src
                     (dict_get result ''status'' (JStr ''error''))
                     (zone_to_score env src (dict_get result ''risk_score'' JNull))
                     (build_description env (dict_get result ''data'' (JObj [])))
                     (dict_get result ''raw'' JNull), st2)))"

text \<open>The body of the \<open>try\<close> in \<open>_query_single_source\<close>.\<close>

definition query_single_source_body ::
  "'f env \<Rightarrow> APIKey \<Rightarrow> 'f APISource \<Rightarrow> string \<Rightarrow> string \<Rightarrow> 'f world
     \<Rightarrow> (py_exc + 'f IOCSourceResult) \<times> 'f world" where
  "query_single_source_body env k src ioc_type ioc_value st =
     (if type_not_supported src ioc_type then (Inr (skipped_result src ioc_type), st)
      else if requires_auth src then
        (if key_api_key k \<noteq> [] \<and> strip (key_api_key k) \<noteq> [] then
           (let decrypted_key = decrypt_value env (key_api_key k)
            in if decrypted_key = [] \<or> strip decrypted_key = []
               then (Inr (error_result src ''Failed to decrypt API key or API key is empty''), st)
               else call_adapter env k src decrypted_key ioc_type ioc_value st)
         else (Inr (error_result src ''API key is required for this API source''), st))
      else call_adapter env k src [] ioc_type ioc_value st)"

definition query_single_source ::
  "'f env \<Rightarrow> APIKey \<Rightarrow> 'f APISource \<Rightarrow> string \<Rightarrow> string \<Rightarrow> 'f world
     \<Rightarrow> 'f IOCSourceResult \<times> 'f world" where
  "query_single_source env k src ioc_type ioc_value st =
     (case query_single_source_body env k src ioc_type ioc_value st of
        (Inr r, st1) \<Rightarrow> (r, st1)
      | (Inl e, st1) \<Rightarrow> (error_result src (''Error: '' @ exc_str e), st1))"

text \<open>\<open>_query_single_source_without_key\<close>: no credential, no commit, no zone handling.\<close>

definition query_single_source_without_key_body ::
  "'f env \<Rightarrow> 'f APISource \<Rightarrow> string \<Rightarrow> string \<Rightarrow> 'f world
     \<Rightarrow> (py_exc + 'f IOCSourceResult) \<times> 'f world" where
  "query_single_source_without_key_body env src ioc_type ioc_value st =
     (if type_not_supported src ioc_type then (Inr (skipped_result src ioc_type), st)
      else
        let client = new_client src [] None None None;
            st1 = st\<lparr>adapter_calls := adapter_calls st @ [(src_name src, None)]\<rparr>
        in case query env client ioc_type ioc_value 30 of
             Inl e \<Rightarrow> (Inl e, st1)
           | Inr result \<Rightarrow>
               (make_result env src
                  (dict_get result ''status'' (JStr ''error''))
                  (dict_get result ''risk_score'' JNull)
                  (build_description env (dict_get result ''data'' (JObj [])))
                  (dict_get result ''raw'' JNull), st1))"

definition query_single_source_without_key ::
  "'f env \<Rightarrow> 'f APISource \<Rightarrow> string \<Rightarrow> string \<Rightarrow> 'f world
     \<Rightarrow> 'f IOCSourceResult \<times> 'f world" where
  "query_single_source_without_key env src ioc_type ioc_value st =
     (case query_single_source_without_key_body env src ioc_type ioc_value st of
        (Inr r, st1) \<Rightarrow> (r, st1)
      | (Inl e, st1) \<Rightarrow> (error_result src (''Error: '' @ exc_str e), st1))"

text \<open>The body of the \<open>try\<close> in \<open>_save_query_to_db\<close>: the loop over the source results,
  then the commit.\<close>

fun save_source_results ::
  "'f env \<Rightarrow> string \<Rightarrow> 'f IOCSourceResult list \<Rightarrow> 'f world \<Rightarrow> (py_exc + unit) \<times> 'f world" where
  "save_source_results env ioc_query_id [] st = db_commit env st"
| "save_source_results env ioc_query_id (source_result # rest) st =
     (case db_call env st of
        (True, st1) \<Rightarrow> (Inl db_error, st1)
      | (False, st1) \<Rightarrow>
          (case find (\<lambda>s. src_name s = source source_result) (tbl_api_sources st1) of
             None \<Rightarrow> save_source_results env ioc_query_id rest st1
           | Some api_source' \<Rightarrow>
               (let threat_data =
                      \<lparr> td_id = uuid4 env (uuid_count st1),
                        td_ioc_query_id = ioc_query_id,
                        td_source_api = source source_result,
                        td_raw_data_json = raw source_result,
                        td_processed_data_json =
                          (status source_result, risk_score source_result, description source_result),
                        td_confidence_score = risk_score source_result \<rparr>;
                    st2 = db_add (ThreatIntelligenceDataRow threat_data)
                            (st1\<lparr>uuid_count := Suc (uuid_count st1)\<rparr>)
                in save_source_results env ioc_query_id rest st2)))"

definition save_query_to_db_body ::
  "'f env \<Rightarrow> string \<Rightarrow> IOCQueryRequest \<Rightarrow> 'f IOCQueryResponse \<Rightarrow> 'f world
     \<Rightarrow> (py_exc + unit) \<times> 'f world" where
  "save_query_to_db_body env user_id payload response st =
     (let ioc_query =
            \<lparr> iq_id = uuid4 env (uuid_count st),
              iq_user_id = user_id,
              iq_ioc_type = payload_ioc_type payload,
              iq_ioc_value = payload_ioc_value payload,
              iq_query_date = queried_at response,
              iq_results_json = (overall_risk response, queried_sources response),
              iq_risk_score = (if str_truthy (overall_risk response)
                               then get_risk_score_from_level env (overall_risk response)
                               else None),
              iq_status = (if str_truthy (overall_risk response)
                           then the (overall_risk response) else ''pending'') \<rparr>;
          st1 = db_add (IOCQueryRow ioc_query) (st\<lparr>uuid_count := Suc (uuid_count st)\<rparr>)
      in case db_flush env st1 of
           (Inl e, st2) \<Rightarrow> (Inl e, st2)
         | (Inr u, st2) \<Rightarrow> save_source_results env (iq_id ioc_query) (queried_sources response) st2)"

definition save_query_to_db ::
  "'f env \<Rightarrow> string \<Rightarrow> IOCQueryRequest \<Rightarrow> 'f IOCQueryResponse \<Rightarrow> 'f world \<Rightarrow> 'f world" where
  "save_query_to_db env user_id payload response st =
     (case save_query_to_db_body env user_id payload response st of
        (Inr u, st1) \<Rightarrow> st1
      | (Inl e, st1) \<Rightarrow> db_rollback st1)"

text \<open>The parts of \<open>query_ioc\<close>, in the order of the code.\<close>

definition redis_key_of :: "IOCQueryRequest \<Rightarrow> string" where
  "redis_key_of payload =
     ''ioc:'' @ lower (payload_ioc_type payload) @ '':'' @ lower (payload_ioc_value payload)"

text \<open>Combining the credentialed sources with the sources without authentication.\<close>

fun add_sources_without_keys ::
  "(APIKey option \<times> 'f APISource) list \<Rightarrow> 'f APISource list \<Rightarrow> (APIKey option \<times> 'f APISource) list" where
  "add_sources_without_keys all_sources_to_query [] = all_sources_to_query"
| "add_sources_without_keys all_sources_to_query (api_source' # rest) =
     (if \<not> list_ex (\<lambda>(k, src). src_id src = src_id api_source') all_sources_to_query
      then add_sources_without_keys (all_sources_to_query @ [(None, api_source')]) rest
      else add_sources_without_keys all_sources_to_query rest)"

definition combine_sources ::
  "(APIKey \<times> 'f APISource) list \<Rightarrow> 'f APISource list \<Rightarrow> (APIKey option \<times> 'f APISource) list" where
  "combine_sources api_key_sources sources_without_keys =
     add_sources_without_keys (map (\<lambda>(k, src). (Some k, src)) api_key_sources) sources_without_keys"

definition no_sources_response :: "IOCQueryRequest \<Rightarrow> 'f world \<Rightarrow> 'f IOCQueryResponse" where
  "no_sources_response payload st =
     \<lparr> r_ioc_type = payload_ioc_type payload,
       r_ioc_value = payload_ioc_value payload,
       overall_risk = None,
       queried_sources =
         [\<lparr> source = ''system'', status = ''error'', risk_score = None,
            description = Some ''No active API keys or sources found for the requested sources'',
            raw = None \<rparr>],
       queried_at = clock st \<rparr>"

text \<open>The loop "Query all sources".\<close>

fun query_all_sources ::
  "'f env \<Rightarrow> (APIKey option \<times> 'f APISource) list \<Rightarrow> string \<Rightarrow> string \<Rightarrow> 'f world
     \<Rightarrow> 'f IOCSourceResult list \<times> 'f world" where
  "query_all_sources env [] ioc_type ioc_value st = ([], st)"
| "query_all_sources env ((ko, src) # rest) ioc_type ioc_value st =
     (let (result, st1) =
            (case ko of
               None \<Rightarrow> query_single_source_without_key env src ioc_type ioc_value st
             | Some k \<Rightarrow> query_single_source env k src ioc_type ioc_value st);
          (results, st2) = query_all_sources env rest ioc_type ioc_value st1
      in (result # results, st2))"

text \<open>\<open>query_ioc\<close> after both caches have missed.\<close>

definition query_ioc_sources ::
  "'f env \<Rightarrow> string \<Rightarrow> IOCQueryRequest \<Rightarrow> bool \<Rightarrow> 'f world
     \<Rightarrow> (py_exc + 'f IOCQueryResponse) \<times> 'f world" where
  "query_ioc_sources env user_id payload auto_mode_only st =
     (case get_active_api_keys env (payload_sources payload) auto_mode_only st of
        (Inl e, st1) \<Rightarrow> (Inl e, st1)
      | (Inr api_key_sources, st1) \<Rightarrow>
     (case get_sources_without_auth env (payload_sources payload) st1 of
        (Inl e, st2) \<Rightarrow> (Inl e, st2)
      | (Inr sources_without_keys, st2) \<Rightarrow>
          (let all_sources_to_query = combine_sources api_key_sources sources_without_keys
           in if all_sources_to_query = [] then (Inr (no_sources_response payload st2), st2)
              else
                let (results, st3) = query_all_sources env all_sources_to_query
                                       (payload_ioc_type payload) (payload_ioc_value payload) st2;
                    response = \<lparr> r_ioc_type = payload_ioc_type payload,
                                 r_ioc_value = payload_ioc_value payload,
                                 overall_risk = calculate_overall_risk env results,
                                 queried_sources = results,
                                 queried_at = clock st3 \<rparr>;
                    st4 = ioc_cache_set response st3;
                    st5 = redis_cache_set (redis_key_of payload) response st4;
                    st6 = save_query_to_db env user_id payload response st5
                in (Inr response, st6))))"

definition query_ioc ::
  "'f env \<Rightarrow> string \<Rightarrow> IOCQueryRequest \<Rightarrow> bool \<Rightarrow> 'f world
     \<Rightarrow> (py_exc + 'f IOCQueryResponse) \<times> 'f world" where
  "query_ioc env user_id payload auto_mode_only st =
     (case redis_cache_get st (redis_key_of payload) of
        Some (Parsed cached) \<Rightarrow> (Inr cached, st)
      | other \<Rightarrow>
          (case ioc_cache_get (payload_ioc_type payload) (payload_ioc_value payload) st of
             (Some cached_response, st1) \<Rightarrow>
               (Inr cached_response, redis_cache_set (redis_key_of payload) cached_response st1)
           | (None, st1) \<Rightarrow> query_ioc_sources env user_id payload auto_mode_only st1))"

section \<open>WatchlistScheduler (app/services/scheduler.py)\<close>

record Settings =
  watchlist_scheduler_enabled :: bool
  watchlist_scheduler_interval_minutes :: int
  watchlist_scheduler_min_check_interval :: int

text \<open>\<open>timedelta(minutes=m)\<close>, in microseconds: OverflowError when the number of days
  exceeds 999999999 in magnitude.\<close>

definition timedelta_minutes :: "int \<Rightarrow> py_exc + int" where
  "timedelta_minutes m =
     (if m div 1440 < - 999999999 \<or> 999999999 < m div 1440
      then Inl (OverflowError ''days out of range for timedelta'')
      else Inr (m * 60000000))"

definition convert_risk_to_status :: "string option \<Rightarrow> IOCStatus option" where
  "convert_risk_to_status risk_level =
     (if \<not> str_truthy risk_level then None
      else map_of [(''high'', MALICIOUS), (''medium'', SUSPICIOUS), (''low'', SUSPICIOUS),
                   (''clean'', CLEAN)] (lower (the risk_level)))"

definition threshold_map :: "RiskThreshold \<Rightarrow> string list" where
  "threshold_map t =
     (case t of
        LOW \<Rightarrow> [''low'', ''medium'', ''high'']
      | MEDIUM \<Rightarrow> [''medium'', ''high'']
      | HIGH \<Rightarrow> [''high'']
      | CRITICAL \<Rightarrow> [''high''])"

definition should_trigger_alert :: "RiskThreshold option \<Rightarrow> string option \<Rightarrow> bool" where
  "should_trigger_alert risk_threshold risk_level =
     (if risk_threshold = None \<or> \<not> str_truthy risk_level then False
      else lower (the risk_level) \<in> set (threshold_map (the risk_threshold)))"

text \<open>The severity of the alert: \<open>severity_map.get((overall_risk or "unknown").lower(),
  AlertSeverity.MEDIUM)\<close>.\<close>

definition alert_severity_of :: "string option \<Rightarrow> AlertSeverity" where
  "alert_severity_of risk =
     (let risk_level_for_alert = lower (if str_truthy risk then the risk else ''unknown'')
      in case map_of [(''low'', AlertSeverity_LOW), (''medium'', AlertSeverity_MEDIUM),
                      (''high'', AlertSeverity_HIGH), (''critical'', AlertSeverity_HIGH)]
                     risk_level_for_alert of
           Some sev \<Rightarrow> sev
         | None \<Rightarrow> AlertSeverity_MEDIUM)"

text \<open>\<open>AlertService.create_alert\<close>, called with an \<open>AlertCreate\<close> whose title must not
  be longer than 255 characters.\<close>

definition create_alert ::
  "'f env \<Rightarrow> string \<Rightarrow> AlertSeverity \<Rightarrow> string \<Rightarrow> string \<Rightarrow> string \<Rightarrow> string \<Rightarrow> 'f world
     \<Rightarrow> (py_exc + unit) \<times> 'f world" where
  "create_alert env user_id sev title message watchlist_id asset_id st =
     (if length title > 255
      then (Inl (ValidationError ''title: String should have at most 255 characters''), st)
      else
        let alert = \<lparr> alert_id = uuid4 env (uuid_count st),
                      alert_user_id = user_id,
                      alert_watchlist_id = Some watchlist_id,
                      alert_asset_id = Some asset_id,
                      alert_type = WATCHLIST,
                      alert_severity = sev,
                      alert_title = title,
                      alert_message = Some message,
                      alert_is_read = False,
                      alert_created_at = clock st \<rparr>;
            st1 = db_add (AlertRow alert) (st\<lparr>uuid_count := Suc (uuid_count st)\<rparr>)
        in case db_commit env st1 of
             (Inl e, st2) \<Rightarrow> (Inl e, st2)
           | (Inr u, st2) \<Rightarrow>
               (case db_call env st2 of
                  (True, st3) \<Rightarrow> (Inl db_error, st3)
                | (False, st3) \<Rightarrow> (Inr (), st3)))"

definition update_item :: "AssetWatchlistItem \<Rightarrow> 'f world \<Rightarrow> 'f world" where
  "update_item item' st =
     st\<lparr>tbl_items := map (\<lambda>i. if item_id i = item_id item' then item' else i) (tbl_items st)\<rparr>"

text \<open>\<open>_check_watchlist_item\<close> after the query: the item is updated, the history entry
  is added, the alert is created when the policy triggers, and all is committed.\<close>

definition checked_item :: "AssetWatchlistItem \<Rightarrow> 'f IOCQueryResponse \<Rightarrow> 'f world \<Rightarrow> AssetWatchlistItem" where
  "checked_item item ioc_response st =
     item\<lparr> item_last_check_date := Some (clock st),
           item_last_risk_score := overall_risk ioc_response,
           item_last_status := convert_risk_to_status (overall_risk ioc_response) \<rparr>"

definition check_history_entry ::
  "'f env \<Rightarrow> AssetWatchlistItem \<Rightarrow> 'f IOCQueryResponse \<Rightarrow> 'f world \<Rightarrow> 'f AssetCheckHistory" where
  "check_history_entry env item ioc_response st =
     \<lparr> h_id = uuid4 env (uuid_count st),
       h_watchlist_item_id = item_id item,
       h_check_date = clock st,
       h_risk_score = overall_risk ioc_response,
       h_status = convert_risk_to_status (overall_risk ioc_response),
       h_threat_intelligence_data = (overall_risk ioc_response, queried_sources ioc_response),
       h_sources_checked = map source (queried_sources ioc_response),
       h_alert_triggered =
         should_trigger_alert (item_risk_threshold item) (overall_risk ioc_response) \<rparr>"

text \<open>The block "Create alert if threshold is exceeded".\<close>

definition alert_for_item ::
  "'f env \<Rightarrow> AssetWatchlistItem \<Rightarrow> AssetWatchlist \<Rightarrow> 'f IOCQueryResponse \<Rightarrow> 'f world
     \<Rightarrow> (py_exc + unit) \<times> 'f world" where
  "alert_for_item env item watchlist ioc_response st =
     create_alert env (wl_user_id watchlist)
       (alert_severity_of (overall_risk ioc_response))
       (''High Risk Detected: '' @ upper (item_ioc_type item) @ '' - '' @ item_ioc_value item)
       (''Watchlist asset '' @ quoted (item_ioc_value item) @ '' detected with ''
          @ (if str_truthy (overall_risk ioc_response)
             then the (overall_risk ioc_response) else ''unknown'')
          @ '' risk level.'')
       (wl_id watchlist) (item_id item) st"

definition record_check ::
  "'f env \<Rightarrow> AssetWatchlistItem \<Rightarrow> AssetWatchlist \<Rightarrow> 'f IOCQueryResponse \<Rightarrow> 'f world
     \<Rightarrow> (py_exc + unit) \<times> 'f world" where
  "record_check env item watchlist ioc_response st =
     (case db_flush env (update_item (checked_item item ioc_response st) st) of
        (Inl e, st1) \<Rightarrow> (Inl e, st1)
      | (Inr u, st1) \<Rightarrow>
          (let check_history = check_history_entry env item ioc_response st1
           in case db_flush env (db_add (AssetCheckHistoryRow check_history)
                                   (st1\<lparr>uuid_count := Suc (uuid_count st1)\<rparr>)) of
                (Inl e, st2) \<Rightarrow> (Inl e, st2)
              | (Inr u, st2) \<Rightarrow>
                  (if h_alert_triggered check_history then
                     (case alert_for_item env item watchlist ioc_response st2 of
                        (Inl e, st3) \<Rightarrow> (Inl e, st3)
                      | (Inr u, st3) \<Rightarrow> db_commit env st3)
                   else db_commit env st2)))"

definition check_watchlist_item ::
  "'f env \<Rightarrow> AssetWatchlistItem \<Rightarrow> AssetWatchlist \<Rightarrow> 'f world \<Rightarrow> (py_exc + unit) \<times> 'f world" where
  "check_watchlist_item env item watchlist st =
     (let st0 = st\<lparr>item_checks := item_checks st @ [item_id item]\<rparr>;
          ioc_request = \<lparr> payload_ioc_type = item_ioc_type item,
                          payload_ioc_value = item_ioc_value item,
                          payload_sources = None \<rparr>
      in case query_ioc env (wl_user_id watchlist) ioc_request True st0 of
           (Inl e, st1) \<Rightarrow> (Inl e, st1)
         | (Inr ioc_response, st1) \<Rightarrow> record_check env item watchlist ioc_response st1)"

text \<open>The loop over the items in \<open>_check_watchlist\<close>. An exception of the check of an
  item is caught and logged; one of the computation of the interval is not.\<close>

fun check_items ::
  "'f env \<Rightarrow> AssetWatchlist \<Rightarrow> int \<Rightarrow> AssetWatchlistItem list \<Rightarrow> 'f world
     \<Rightarrow> (py_exc + unit) \<times> 'f world" where
  "check_items env watchlist current_time [] st = (Inr (), st)"
| "check_items env watchlist current_time (item # rest) st =
     (case (case item_last_check_date item of
              None \<Rightarrow> Inr True
            | Some last_check \<Rightarrow>
                (case timedelta_minutes (wl_check_interval watchlist) of
                   Inl e \<Rightarrow> Inl e
                 | Inr interval_minutes \<Rightarrow> Inr (current_time - last_check \<ge> interval_minutes))) of
        Inl e \<Rightarrow> (Inl e, st)
      | Inr should_check \<Rightarrow>
          check_items env watchlist current_time rest
            (if should_check then snd (check_watchlist_item env item watchlist st) else st))"

definition check_watchlist ::
  "Settings \<Rightarrow> 'f env \<Rightarrow> AssetWatchlist \<Rightarrow> 'f world \<Rightarrow> (py_exc + unit) \<times> 'f world" where
  "check_watchlist settings env watchlist st =
     (if wl_check_interval watchlist < watchlist_scheduler_min_check_interval settings
      then (Inr (), st)
      else case db_call env st of
             (True, st1) \<Rightarrow> (Inl db_error, st1)
           | (False, st1) \<Rightarrow>
               (let items = filter (\<lambda>i. item_watchlist_id i = wl_id watchlist \<and> item_is_active i)
                                   (tbl_items st1)
                in if items = [] then (Inr (), st1)
                   else check_items env watchlist (clock st1) items st1))"

text \<open>\<open>_check_all_watchlists\<close>: every error is caught and logged, and the session is
  closed at the end.\<close>

fun check_each_watchlist ::
  "Settings \<Rightarrow> 'f env \<Rightarrow> AssetWatchlist list \<Rightarrow> 'f world \<Rightarrow> 'f world" where
  "check_each_watchlist settings env [] st = st"
| "check_each_watchlist settings env (watchlist # rest) st =
     check_each_watchlist settings env rest (snd (check_watchlist settings env watchlist st))"

definition check_all_watchlists :: "Settings \<Rightarrow> 'f env \<Rightarrow> 'f world \<Rightarrow> 'f world" where
  "check_all_watchlists settings env st =
     db_rollback
       (case db_call env st of
          (True, st1) \<Rightarrow> st1
        | (False, st1) \<Rightarrow>
            check_each_watchlist settings env
              (filter (\<lambda>w. wl_is_active w \<and> wl_notification_enabled w) (tbl_watchlists st1)) st1)"

section \<open>Example values\<close>

text \<open>An environment in which every request times out, the database never fails and a
  stored secret decrypts when it starts with \<open>enc:\<close>; the float type is \<open>unit\<close>, for
  examples in which no score occurs.\<close>

definition example_env :: "unit env" where
  "example_env =
     \<lparr> fsum = (\<lambda>xs. ()), fdiv = (\<lambda>x n. ()), fge = (\<lambda>x y. True), flit = (\<lambda>s. ()),
       fnonzero = (\<lambda>x. True), f_of_int = (\<lambda>i. ()), f_of_str = (\<lambda>s. Some ()),
       http_request = (\<lambda>r. Inl (Timeout ''timed out'')),
       http_error_message = (\<lambda>r. ''HTTP error''),
       jsonpath = (\<lambda>p d. Some []),
       json_loads = (\<lambda>s. None),
       fernet_decrypt = (\<lambda>s. if take 4 s = ''enc:'' then Some (drop 4 s) else None),
       py_str = (\<lambda>v. ''''),
       uuid4 = (\<lambda>n. CHR ''u'' # replicate n CHR ''x''),
       db_fault = (\<lambda>n. False) \<rparr>"

definition example_settings :: Settings where
  "example_settings =
     \<lparr> watchlist_scheduler_enabled = True,
       watchlist_scheduler_interval_minutes = 30,
       watchlist_scheduler_min_check_interval = 60 \<rparr>"

definition example_watchlist :: AssetWatchlist where
  "example_watchlist =
     \<lparr> wl_id = ''w1'', wl_user_id = ''u1'', wl_is_active = True,
       wl_notification_enabled = True, wl_check_interval = 60 \<rparr>"

text \<open>An item of the example watchlist, last checked the given number of minutes after the
  epoch (or never).\<close>

definition example_item :: "string \<Rightarrow> int option \<Rightarrow> AssetWatchlistItem" where
  "example_item i last_check_minutes =
     \<lparr> item_id = i, item_watchlist_id = ''w1'', item_ioc_type = ''ip'',
       item_ioc_value = ''8.8.8.8'', item_risk_threshold = Some HIGH,
       item_last_check_date = map_option (\<lambda>m. m * 60000000) last_check_minutes,
       item_last_risk_score = None, item_last_status = None, item_is_active = True \<rparr>"

text \<open>A state whose clock shows 100 minutes after the epoch: item \<open>a\<close> was checked 59
  minutes ago, item \<open>b\<close> 61 minutes ago, item \<open>c\<close> never. No source is configured and the
  caches are empty.\<close>

definition example_world :: "unit world" where
  "example_world =
     \<lparr> clock = 100 * 60000000, db_ops = 0, uuid_count = 0,
       tbl_api_sources = [], tbl_api_keys = [],
       tbl_watchlists = [example_watchlist],
       tbl_items = [example_item ''a'' (Some 41), example_item ''b'' (Some 39),
                    example_item ''c'' None],
       tbl_rows = [], session_new = [], session_flushed = [],
       redis_up = False, redis = (\<lambda>k. None), ioc_cache = (\<lambda>k. None),
       adapter_calls = [], item_checks = [] \<rparr>"

text \<open>A source that requires an API key and supports the kinds \<open>ip\<close> and \<open>domain\<close>,
  a source without authentication, and three credentials for the first source.\<close>

definition example_source :: "unit APISource" where
  "example_source =
     \<lparr> src_id = ''s1'', src_name = ''virustotal'', src_display_name = ''VirusTotal'',
       src_base_url = ''https://vt.example/api/'',
       src_supported_ioc_types = Some [''ip'', ''domain''],
       src_authentication_type = API_KEY,
       src_request_config = Some [(''headers'', JObj [(''x-apikey'', JStr ''{api_key}'')])],
       src_response_config = Some [(''risk_score_path'', JStr ''$.score'')],
       src_is_active = True \<rparr>"

definition example_open_source :: "unit APISource" where
  "example_open_source =
     \<lparr> src_id = ''s2'', src_name = ''openfeed'', src_display_name = ''Open Feed'',
       src_base_url = ''https://feed.example'',
       src_supported_ioc_types = Some [''ip''],
       src_authentication_type = NONE,
       src_request_config = None, src_response_config = None,
       src_is_active = True \<rparr>"

definition example_key :: "string \<Rightarrow> string \<Rightarrow> UpdateMode \<Rightarrow> bool \<Rightarrow> APIKey" where
  "example_key i secret mode active =
     \<lparr> key_id = i, key_user_id = ''u1'', key_api_source_id = ''s1'', key_api_key = secret,
       key_username = None, key_password = None, key_api_url = None,
       key_is_active = active, key_update_mode = mode, key_last_used = None \<rparr>"

definition registry_world :: "unit world" where
  "registry_world =
     example_world\<lparr> tbl_api_sources := [example_source, example_open_source],
                    tbl_api_keys := [example_key ''k1'' ''enc:secret'' AUTO True,
                                     example_key ''k2'' ''enc:other'' MANUAL True,
                                     example_key ''k3'' ''enc:old'' AUTO False] \<rparr>"

text \<open>The example state with a cached response of verdict \<open>high\<close> for the indicator of
  the example items.\<close>

definition example_cached_response :: "unit IOCQueryResponse" where
  "example_cached_response =
     \<lparr> r_ioc_type = ''ip'', r_ioc_value = ''8.8.8.8'', overall_risk = Some ''high'',
       queried_sources = [\<lparr> source = ''virustotal'', status = ''success'', risk_score = Some (),
                            description = Some ''malicious'', raw = None \<rparr>],
       queried_at = 99 * 60000000 \<rparr>"





section \<open>Notions used in the statements\<close>

text \<open>Two states with the same logs.\<close>

definition same_logs :: "'f world \<Rightarrow> 'f world \<Rightarrow> bool" where
  "same_logs st st' = (adapter_calls st' = adapter_calls st \<and> item_checks st' = item_checks st)"

text \<open>The indicator type is supported and, where the source requires authentication, the
  stored key is present and decrypts to a non-blank key: the single-source query calls the
  adapter.\<close>

definition reaches_adapter :: "'f env \<Rightarrow> APIKey \<Rightarrow> 'f APISource \<Rightarrow> string \<Rightarrow> bool" where
  "reaches_adapter env k src t =
     (\<not> type_not_supported src t \<and>
      (requires_auth src \<longrightarrow>
         key_api_key k \<noteq> [] \<and> strip (key_api_key k) \<noteq> [] \<and>
         decrypt_value env (key_api_key k) \<noteq> [] \<and> strip (decrypt_value env (key_api_key k)) \<noteq> []))"

text \<open>The entry that the query of one source adds to \<open>adapter_calls\<close>, if any.\<close>

definition source_call :: "'f env \<Rightarrow> string \<Rightarrow> APIKey option \<times> 'f APISource \<Rightarrow> (string \<times> APIKey option) list" where
  "source_call env t p =
     (case p of
        (None, src) \<Rightarrow> if type_not_supported src t then [] else [(src_name src, None)]
      | (Some k, src) \<Rightarrow> if reaches_adapter env k src t then [(src_name src, Some k)] else [])"





section \<open>Unfolding the example values\<close>

lemmas example_defs = example_env_def example_world_def example_watchlist_def
  example_settings_def example_item_def registry_world_def example_key_def
  example_source_def example_open_source_def

section \<open>Effects of the operations on the logs\<close>

text \<open>The database and cache operations leave both logs as they are; a call of the
  adapter adds one entry to \<open>adapter_calls\<close>, a check of an item one to \<open>item_checks\<close>.\<close>

lemma same_logs_refl [simp]: "same_logs st st"
  by (simp add: same_logs_def)

lemma same_logs_trans: "same_logs a b \<Longrightarrow> same_logs b c \<Longrightarrow> same_logs a c"
  by (simp add: same_logs_def)

lemma db_call_logs: "same_logs st (snd (db_call env st))"
  by (simp add: db_call_def same_logs_def)

lemma db_add_logs: "same_logs st (db_add r st)"
  by (simp add: db_add_def same_logs_def)

lemma db_flush_logs: "same_logs st (snd (db_flush env st))"
  by (simp add: db_flush_def db_call_def same_logs_def split: prod.splits bool.splits)

lemma db_commit_logs: "same_logs st (snd (db_commit env st))"
  by (simp add: db_commit_def db_call_def same_logs_def split: prod.splits bool.splits)

lemma db_rollback_logs: "same_logs st (db_rollback st)"
  by (simp add: db_rollback_def same_logs_def)

lemma save_source_results_logs:
  "same_logs st (snd (save_source_results env qid rs st))"
proof (induction rs arbitrary: st)
  case Nil
  then show ?case by (simp add: db_commit_logs)
next
  case (Cons r rs)
  show ?case
    using Cons.IH
    apply (simp add: db_call_def split: prod.splits bool.splits option.splits)
    apply (auto simp: same_logs_def db_add_def Let_def)
    done
qed

lemma same_logs_uuid [simp]: "same_logs st (st'\<lparr>uuid_count := n\<rparr>) = same_logs st st'"
  by (simp add: same_logs_def)

lemma save_query_to_db_body_logs:
  "same_logs st (snd (save_query_to_db_body env uid payload response st))"
proof -
  define q where "q = \<lparr> iq_id = uuid4 env (uuid_count st),
              iq_user_id = uid,
              iq_ioc_type = payload_ioc_type payload,
              iq_ioc_value = payload_ioc_value payload,
              iq_query_date = queried_at response,
              iq_results_json = (overall_risk response, queried_sources response),
              iq_risk_score = (if str_truthy (overall_risk response)
                               then get_risk_score_from_level env (overall_risk response)
                               else None),
              iq_status = (if str_truthy (overall_risk response)
                           then the (overall_risk response) else ''pending'') \<rparr>"
  define st1 where "st1 = db_add (IOCQueryRow q) (st\<lparr>uuid_count := Suc (uuid_count st)\<rparr>)"
  have s1: "same_logs st st1"
    by (simp add: st1_def db_add_def same_logs_def)
  obtain r st2 where f: "db_flush env st1 = (r, st2)"
    by (cases "db_flush env st1")
  have s2: "same_logs st1 st2"
    using db_flush_logs [of st1 env] f by simp
  have body: "save_query_to_db_body env uid payload response st =
      (case r of Inl e \<Rightarrow> (Inl e, st2)
               | Inr u \<Rightarrow> save_source_results env (iq_id q) (queried_sources response) st2)"
    by (simp add: save_query_to_db_body_def Let_def q_def [symmetric] st1_def [symmetric] f)
  show ?thesis
  proof (cases r)
    case (Inl e)
    then show ?thesis using body s1 s2 by (simp add: same_logs_def)
  next
    case (Inr u)
    have "same_logs st2 (snd (save_source_results env (iq_id q) (queried_sources response) st2))"
      by (rule save_source_results_logs)
    then show ?thesis using body Inr s1 s2 by (simp add: same_logs_def)
  qed
qed

lemma save_query_to_db_logs:
  "same_logs st (save_query_to_db env uid payload response st)"
proof -
  have b: "same_logs st (snd (save_query_to_db_body env uid payload response st))"
    by (rule save_query_to_db_body_logs)
  show ?thesis
    using b by (cases "save_query_to_db_body env uid payload response st")
      (auto simp: save_query_to_db_def same_logs_def db_rollback_def split: sum.splits)
qed

lemma redis_cache_set_logs: "same_logs st (redis_cache_set k v st)"
  by (simp add: redis_cache_set_def same_logs_def)

lemma ioc_cache_set_logs: "same_logs st (ioc_cache_set v st)"
  by (simp add: ioc_cache_set_def same_logs_def)

lemma ioc_cache_get_logs: "same_logs st (snd (ioc_cache_get t v st))"
  by (simp add: ioc_cache_get_def same_logs_def Let_def split: option.splits prod.splits)

lemma get_active_api_keys_logs: "same_logs st (snd (get_active_api_keys env srcs a st))"
  by (simp add: get_active_api_keys_def db_call_def same_logs_def split: prod.splits bool.splits)

lemma get_sources_without_auth_logs: "same_logs st (snd (get_sources_without_auth env srcs st))"
  by (simp add: get_sources_without_auth_def db_call_def same_logs_def split: prod.splits bool.splits)

lemma set_last_used_logs: "same_logs st (set_last_used k st)"
  by (simp add: set_last_used_def same_logs_def)

lemma call_adapter_calls:
  "adapter_calls (snd (call_adapter env k src dk t v st)) = adapter_calls st @ [(src_name src, Some k)]"
proof -
  define st1 where "st1 = st\<lparr>adapter_calls := adapter_calls st @ [(src_name src, Some k)]\<rparr>"
  have c: "adapter_calls (snd (db_commit env (set_last_used k st1))) = adapter_calls st1"
    using db_commit_logs [of "set_last_used k st1" env] set_last_used_logs [of st1 k]
    by (simp add: same_logs_def)
  show ?thesis
    using c unfolding call_adapter_def Let_def st1_def
    by (auto split: sum.splits prod.splits)
qed


lemma call_adapter_calls_pair:
  "call_adapter env k src dk t v st = (r, st') \<Longrightarrow>
     adapter_calls st' = adapter_calls st @ [(src_name src, Some k)]"
  using call_adapter_calls [of env k src dk t v st] by simp


lemma query_single_source_calls:
  "adapter_calls (snd (query_single_source env k src t v st)) =
     adapter_calls st @ (if reaches_adapter env k src t then [(src_name src, Some k)] else [])"
  unfolding query_single_source_def query_single_source_body_def reaches_adapter_def Let_def
  by (auto split: sum.splits prod.splits dest: call_adapter_calls_pair)


lemma query_single_source_without_key_calls:
  "adapter_calls (snd (query_single_source_without_key env src t v st)) =
     adapter_calls st @ (if type_not_supported src t then [] else [(src_name src, None)])"
  unfolding query_single_source_without_key_def query_single_source_without_key_body_def Let_def
  by (auto split: sum.splits prod.splits)


lemma query_all_sources_calls:
  "adapter_calls (snd (query_all_sources env srcs t v st)) =
     adapter_calls st @ concat (map (source_call env t) srcs)"
proof (induction srcs arbitrary: st)
  case Nil
  then show ?case by simp
next
  case (Cons p srcs)
  obtain ko src where p: "p = (ko, src)" by (cases p)
  show ?case
  proof (cases ko)
    case None
    then show ?thesis
      using Cons.IH [of "snd (query_single_source_without_key env src t v st)"]
        query_single_source_without_key_calls [of env src t v st]
      by (simp add: p source_call_def case_prod_beta)
  next
    case (Some k)
    then show ?thesis
      using Cons.IH [of "snd (query_single_source env k src t v st)"]
        query_single_source_calls [of env k src t v st]
      by (simp add: p source_call_def case_prod_beta)
  qed
qed







lemma query_ioc_sources_cases:
  obtains
    (keys_fail) e st1 where
      "get_active_api_keys env (payload_sources payload) a st = (Inl e, st1)"
      "query_ioc_sources env uid payload a st = (Inl e, st1)"
  | (noauth_fail) aks st1 e st2 where
      "get_active_api_keys env (payload_sources payload) a st = (Inr aks, st1)"
      "get_sources_without_auth env (payload_sources payload) st1 = (Inl e, st2)"
      "query_ioc_sources env uid payload a st = (Inl e, st2)"
  | (no_sources) aks st1 sw st2 where
      "get_active_api_keys env (payload_sources payload) a st = (Inr aks, st1)"
      "get_sources_without_auth env (payload_sources payload) st1 = (Inr sw, st2)"
      "combine_sources aks sw = []"
      "query_ioc_sources env uid payload a st = (Inr (no_sources_response payload st2), st2)"
  | (fan_out) aks st1 sw st2 results st3 response where
      "get_active_api_keys env (payload_sources payload) a st = (Inr aks, st1)"
      "get_sources_without_auth env (payload_sources payload) st1 = (Inr sw, st2)"
      "combine_sources aks sw \<noteq> []"
      "query_all_sources env (combine_sources aks sw) (payload_ioc_type payload)
         (payload_ioc_value payload) st2 = (results, st3)"
      "response = \<lparr> r_ioc_type = payload_ioc_type payload,
                     r_ioc_value = payload_ioc_value payload,
                     overall_risk = calculate_overall_risk env results,
                     queried_sources = results,
                     queried_at = clock st3 \<rparr>"
      "query_ioc_sources env uid payload a st =
         (Inr response, save_query_to_db env uid payload response
                          (redis_cache_set (redis_key_of payload) response
                             (ioc_cache_set response st3)))"
proof -
  obtain r1 st1 where g1: "get_active_api_keys env (payload_sources payload) a st = (r1, st1)"
    by (cases "get_active_api_keys env (payload_sources payload) a st")
  show thesis
  proof (cases r1)
    case (Inl e)
    then show ?thesis using g1 keys_fail by (simp add: query_ioc_sources_def)
  next
    case aks: (Inr aks)
    obtain r2 st2 where g2: "get_sources_without_auth env (payload_sources payload) st1 = (r2, st2)"
      by (cases "get_sources_without_auth env (payload_sources payload) st1")
    show ?thesis
    proof (cases r2)
      case (Inl e)
      then show ?thesis using g1 g2 aks noauth_fail by (simp add: query_ioc_sources_def)
    next
      case sw: (Inr sw)
      show ?thesis
      proof (cases "combine_sources aks sw = []")
        case True
        then show ?thesis using g1 g2 aks sw no_sources by (simp add: query_ioc_sources_def)
      next
        case False
        obtain results st3 where q: "query_all_sources env (combine_sources aks sw)
            (payload_ioc_type payload) (payload_ioc_value payload) st2 = (results, st3)"
          by (cases "query_all_sources env (combine_sources aks sw)
            (payload_ioc_type payload) (payload_ioc_value payload) st2")
        show ?thesis
          using g1 g2 aks sw False q
          by (intro fan_out [OF _ _ False q refl]) (simp_all add: query_ioc_sources_def Let_def)
      qed
    qed
  qed
qed

lemma get_active_api_keys_pairs:
  assumes "get_active_api_keys env srcs a st = (Inr aks, st1)" and "(k, src) \<in> set aks"
  shows "key_is_active k \<and> src_is_active src \<and> (a \<longrightarrow> key_update_mode k = AUTO)"
  using assms
  by (auto simp: get_active_api_keys_def db_call_def split: prod.splits bool.splits if_splits)

lemma add_sources_without_keys_Some:
  "(Some k, src) \<in> set (add_sources_without_keys acc sw) \<Longrightarrow> (Some k, src) \<in> set acc"
  by (induction acc sw rule: add_sources_without_keys.induct) (auto split: if_splits)

lemma combine_sources_Some:
  "(Some k, src) \<in> set (combine_sources aks sw) \<Longrightarrow> (k, src) \<in> set aks"
  by (auto simp: combine_sources_def dest!: add_sources_without_keys_Some)

lemma source_call_Some:
  "(n, Some k) \<in> set (concat (map (source_call env t) srcs)) \<Longrightarrow> \<exists>src. (Some k, src) \<in> set srcs"
  by (auto simp: source_call_def split: option.splits if_splits)

lemma same_logs_calls: "same_logs st st' \<Longrightarrow> adapter_calls st' = adapter_calls st"
  by (simp add: same_logs_def)

lemma same_logs_items: "same_logs st st' \<Longrightarrow> item_checks st' = item_checks st"
  by (simp add: same_logs_def)

lemma after_fan_out_logs:
  "same_logs st3 (save_query_to_db env uid payload response
                          (redis_cache_set key response (ioc_cache_set response st3)))"
  using save_query_to_db_logs [of "redis_cache_set key response (ioc_cache_set response st3)" env uid payload response]
    redis_cache_set_logs [of "ioc_cache_set response st3" key response]
    ioc_cache_set_logs [of st3 response]
  by (simp add: same_logs_def)


lemma query_ioc_sources_calls:
  assumes "(n, Some k) \<in> set (adapter_calls (snd (query_ioc_sources env uid payload a st)))"
  shows "(n, Some k) \<in> set (adapter_calls st) \<or>
         (key_is_active k \<and> (a \<longrightarrow> key_update_mode k = AUTO))"
proof (cases rule: query_ioc_sources_cases [of env payload a st uid])
  case (keys_fail e st1)
  then show ?thesis
    using assms get_active_api_keys_logs [of st env "payload_sources payload" a]
    by (simp add: same_logs_def)
next
  case (noauth_fail aks st1 e st2)
  then show ?thesis
    using assms get_active_api_keys_logs [of st env "payload_sources payload" a]
      get_sources_without_auth_logs [of st1 env "payload_sources payload"]
    by (simp add: same_logs_def)
next
  case (no_sources aks st1 sw st2)
  then show ?thesis
    using assms get_active_api_keys_logs [of st env "payload_sources payload" a]
      get_sources_without_auth_logs [of st1 env "payload_sources payload"]
    by (simp add: same_logs_def)
next
  case (fan_out aks st1 sw st2 results st3 response)
  have c3: "adapter_calls st3 = adapter_calls st2 @
      concat (map (source_call env (payload_ioc_type payload)) (combine_sources aks sw))"
    using query_all_sources_calls [of env "combine_sources aks sw"
        "payload_ioc_type payload" "payload_ioc_value payload" st2] fan_out(4) by simp
  have c2: "adapter_calls st2 = adapter_calls st"
    using fan_out(1,2) get_active_api_keys_logs [of st env "payload_sources payload" a]
      get_sources_without_auth_logs [of st1 env "payload_sources payload"]
    by (simp add: same_logs_def)
  have cf: "adapter_calls (snd (query_ioc_sources env uid payload a st)) = adapter_calls st3"
    using fan_out(6) after_fan_out_logs [of st3 env uid payload response "redis_key_of payload"]
    by (simp add: same_logs_def)
  from assms cf c3 c2 consider "(n, Some k) \<in> set (adapter_calls st)"
    | "(n, Some k) \<in> set (concat (map (source_call env (payload_ioc_type payload)) (combine_sources aks sw)))"
    by auto
  then show ?thesis
  proof cases
    case 1
    then show ?thesis by simp
  next
    case 2
    then obtain src where "(Some k, src) \<in> set (combine_sources aks sw)"
      using source_call_Some by blast
    then have "(k, src) \<in> set aks" by (rule combine_sources_Some)
    then show ?thesis using get_active_api_keys_pairs [OF fan_out(1)] by blast
  qed
qed

lemma query_ioc_cases:
  obtains
    (redis_hit) cached where
      "redis_cache_get st (redis_key_of payload) = Some (Parsed cached)"
      "query_ioc env uid payload a st = (Inr cached, st)"
  | (memory_hit) cached st1 where
      "\<forall>c. redis_cache_get st (redis_key_of payload) \<noteq> Some (Parsed c)"
      "ioc_cache_get (payload_ioc_type payload) (payload_ioc_value payload) st = (Some cached, st1)"
      "query_ioc env uid payload a st =
         (Inr cached, redis_cache_set (redis_key_of payload) cached st1)"
  | (miss) st1 where
      "\<forall>cached. redis_cache_get st (redis_key_of payload) \<noteq> Some (Parsed cached)"
      "ioc_cache_get (payload_ioc_type payload) (payload_ioc_value payload) st = (None, st1)"
      "query_ioc env uid payload a st = query_ioc_sources env uid payload a st1"
proof -
  obtain r st1 where g: "ioc_cache_get (payload_ioc_type payload) (payload_ioc_value payload) st = (r, st1)"
    by (cases "ioc_cache_get (payload_ioc_type payload) (payload_ioc_value payload) st")
  show thesis
  proof (cases "\<exists>cached. redis_cache_get st (redis_key_of payload) = Some (Parsed cached)")
    case True
    then obtain cached where "redis_cache_get st (redis_key_of payload) = Some (Parsed cached)"
      by blast
    then show ?thesis using redis_hit by (simp add: query_ioc_def)
  next
    case False
    then have q: "query_ioc env uid payload a st =
        (case ioc_cache_get (payload_ioc_type payload) (payload_ioc_value payload) st of
             (Some cached_response, st1) \<Rightarrow>
               (Inr cached_response, redis_cache_set (redis_key_of payload) cached_response st1)
           | (None, st1) \<Rightarrow> query_ioc_sources env uid payload a st1)"
      by (auto simp: query_ioc_def split: option.splits redis_entry.splits)
    show ?thesis
    proof (cases r)
      case None
      then show ?thesis using q g False miss by simp
    next
      case (Some cached)
      then show ?thesis using q g False memory_hit [of cached st1] by simp
    qed
  qed
qed


lemma query_ioc_calls:
  assumes "(n, Some k) \<in> set (adapter_calls (snd (query_ioc env uid payload a st)))"
  shows "(n, Some k) \<in> set (adapter_calls st) \<or>
         (key_is_active k \<and> (a \<longrightarrow> key_update_mode k = AUTO))"
proof (cases rule: query_ioc_cases [of st payload env uid a])
  case (redis_hit cached)
  then show ?thesis using assms by simp
next
  case (memory_hit cached st1)
  then show ?thesis
    using assms ioc_cache_get_logs [of st "payload_ioc_type payload" "payload_ioc_value payload"]
      redis_cache_set_logs [of st1 "redis_key_of payload" cached]
    by (simp add: same_logs_def)
next
  case (miss st1)
  have "adapter_calls st1 = adapter_calls st"
    using miss(2) ioc_cache_get_logs [of st "payload_ioc_type payload" "payload_ioc_value payload"]
    by (simp add: same_logs_def)
  then show ?thesis
    using assms miss(3) query_ioc_sources_calls [of n k env uid payload a st1] by simp
qed

lemma update_item_logs: "same_logs st (update_item i st)"
  by (simp add: update_item_def same_logs_def)

lemma create_alert_logs:
  "same_logs st (snd (create_alert env uid sev title msg wid aid st))"
proof -
  define st1 where "st1 = db_add (AlertRow \<lparr> alert_id = uuid4 env (uuid_count st),
                      alert_user_id = uid,
                      alert_watchlist_id = Some wid,
                      alert_asset_id = Some aid,
                      alert_type = WATCHLIST,
                      alert_severity = sev,
                      alert_title = title,
                      alert_message = Some msg,
                      alert_is_read = False,
                      alert_created_at = clock st \<rparr>) (st\<lparr>uuid_count := Suc (uuid_count st)\<rparr>)"
  have s1: "same_logs st st1" by (simp add: st1_def db_add_def same_logs_def)
  obtain r st2 where c: "db_commit env st1 = (r, st2)" by (cases "db_commit env st1")
  have s2: "same_logs st1 st2" using db_commit_logs [of st1 env] c by simp
  have s3: "same_logs st2 (snd (db_call env st2))" by (rule db_call_logs)
  show ?thesis
    using s1 s2 s3 c unfolding create_alert_def Let_def st1_def [symmetric]
    by (auto simp: same_logs_def split: sum.splits prod.splits bool.splits)
qed

lemma db_flush_logs_pair: "db_flush env st = (r, st') \<Longrightarrow> same_logs st st'"
  using db_flush_logs [of st env] by simp

lemma db_commit_logs_pair: "db_commit env st = (r, st') \<Longrightarrow> same_logs st st'"
  using db_commit_logs [of st env] by simp

lemma create_alert_logs_pair:
  "create_alert env uid sev title msg wid aid st = (r, st') \<Longrightarrow> same_logs st st'"
  using create_alert_logs [of st env uid sev title msg wid aid] by simp

lemma db_commit_snd_logs:
  "adapter_calls (snd (db_commit env st)) = adapter_calls st"
  "item_checks (snd (db_commit env st)) = item_checks st"
  using db_commit_logs [of st env] by (simp_all add: same_logs_def)

lemma alert_for_item_logs_pair:
  "alert_for_item env item wl resp st = (r, st') \<Longrightarrow> same_logs st st'"
  unfolding alert_for_item_def by (rule create_alert_logs_pair)

lemma record_check_logs:
  "same_logs st (snd (record_check env item wl resp st))"
  unfolding record_check_def Let_def
  by (auto split: sum.splits prod.splits
      dest!: db_flush_logs_pair db_commit_logs_pair alert_for_item_logs_pair
      simp: same_logs_def db_add_def update_item_def db_commit_snd_logs)




lemma check_watchlist_item_calls:
  assumes "(n, Some k) \<in> set (adapter_calls (snd (check_watchlist_item env item wl st)))"
  shows "(n, Some k) \<in> set (adapter_calls st) \<or> (key_is_active k \<and> key_update_mode k = AUTO)"
proof -
  define st0 where "st0 = st\<lparr>item_checks := item_checks st @ [item_id item]\<rparr>"
  define rq where "rq = \<lparr> payload_ioc_type = item_ioc_type item,
                          payload_ioc_value = item_ioc_value item,
                          payload_sources = None \<rparr>"
  obtain r st1 where q: "query_ioc env (wl_user_id wl) rq True st0 = (r, st1)"
    by (cases "query_ioc env (wl_user_id wl) rq True st0")
  have c0: "adapter_calls st0 = adapter_calls st"
    by (simp add: st0_def)
  have "adapter_calls (snd (check_watchlist_item env item wl st)) = adapter_calls st1"
  proof (cases r)
    case (Inl e)
    then show ?thesis
      using q by (simp add: check_watchlist_item_def Let_def st0_def [symmetric] rq_def [symmetric])
  next
    case (Inr resp)
    have "adapter_calls (snd (record_check env item wl resp st1)) = adapter_calls st1"
      using record_check_logs [of st1 env item wl resp] by (simp add: same_logs_def)
    then show ?thesis
      using q Inr
      by (simp add: check_watchlist_item_def Let_def st0_def [symmetric] rq_def [symmetric])
  qed
  then have "(n, Some k) \<in> set (adapter_calls (snd (query_ioc env (wl_user_id wl) rq True st0)))"
    using assms q by simp
  then show ?thesis
    using query_ioc_calls [of n k env "wl_user_id wl" rq True st0] c0 by simp
qed

lemma query_ioc_sources_calls_eq:
  assumes "get_active_api_keys env (payload_sources payload) a st = (Inr aks, st1)"
    and "get_sources_without_auth env (payload_sources payload) st1 = (Inr sw, st2)"
  shows "adapter_calls (snd (query_ioc_sources env uid payload a st)) =
           adapter_calls st @
           concat (map (source_call env (payload_ioc_type payload)) (combine_sources aks sw))"
proof -
  have c2: "adapter_calls st2 = adapter_calls st"
    using assms get_active_api_keys_logs [of st env "payload_sources payload" a]
      get_sources_without_auth_logs [of st1 env "payload_sources payload"]
    by (simp add: same_logs_def)
  show ?thesis
  proof (cases "combine_sources aks sw = []")
    case True
    then show ?thesis using assms c2 by (simp add: query_ioc_sources_def)
  next
    case False
    obtain results st3 where q: "query_all_sources env (combine_sources aks sw)
        (payload_ioc_type payload) (payload_ioc_value payload) st2 = (results, st3)"
      by (cases "query_all_sources env (combine_sources aks sw)
        (payload_ioc_type payload) (payload_ioc_value payload) st2")
    have c3: "adapter_calls st3 = adapter_calls st2 @
        concat (map (source_call env (payload_ioc_type payload)) (combine_sources aks sw))"
      using query_all_sources_calls [of env "combine_sources aks sw"
          "payload_ioc_type payload" "payload_ioc_value payload" st2] q by simp
    have "adapter_calls (snd (query_ioc_sources env uid payload a st)) = adapter_calls st3"
      using assms False q
        after_fan_out_logs [of st3 env uid payload _ "redis_key_of payload"]
      by (simp add: query_ioc_sources_def Let_def same_logs_def)
    then show ?thesis using c3 c2 by simp
  qed
qed

lemma check_watchlist_item_calls_eq:
  "adapter_calls (snd (check_watchlist_item env item wl st)) =
     adapter_calls (snd (query_ioc env (wl_user_id wl)
        \<lparr> payload_ioc_type = item_ioc_type item, payload_ioc_value = item_ioc_value item,
          payload_sources = None \<rparr> True
        (st\<lparr>item_checks := item_checks st @ [item_id item]\<rparr>)))"
proof -
  define st0 where "st0 = st\<lparr>item_checks := item_checks st @ [item_id item]\<rparr>"
  define rq where "rq = \<lparr> payload_ioc_type = item_ioc_type item,
                          payload_ioc_value = item_ioc_value item,
                          payload_sources = None \<rparr>"
  obtain r st1 where q: "query_ioc env (wl_user_id wl) rq True st0 = (r, st1)"
    by (cases "query_ioc env (wl_user_id wl) rq True st0")
  have "adapter_calls (snd (check_watchlist_item env item wl st)) = adapter_calls st1"
  proof (cases r)
    case (Inl e)
    then show ?thesis
      using q by (simp add: check_watchlist_item_def Let_def st0_def [symmetric] rq_def [symmetric])
  next
    case (Inr resp)
    have "adapter_calls (snd (record_check env item wl resp st1)) = adapter_calls st1"
      using record_check_logs [of st1 env item wl resp] by (simp add: same_logs_def)
    then show ?thesis
      using q Inr
      by (simp add: check_watchlist_item_def Let_def st0_def [symmetric] rq_def [symmetric])
  qed
  then show ?thesis using q by (simp add: st0_def rq_def)
qed

section \<open>The alert policy and the rows of a check\<close>












section \<open>A failed save commits nothing\<close>

lemma db_commit_Inl:
  assumes "db_commit env st = (Inl e, st')"
  shows "tbl_rows st' = tbl_rows st"
  using assms by (auto simp: db_commit_def db_call_def split: bool.splits)

lemma db_flush_rows:
  "tbl_rows (snd (db_flush env st)) = tbl_rows st"
  by (simp add: db_flush_def db_call_def split: bool.splits)

lemma save_source_results_Inl:
  assumes "save_source_results env qid rs st = (Inl e, st')"
  shows "tbl_rows st' = tbl_rows st"
  using assms
proof (induction rs arbitrary: st)
  case Nil
  then show ?case by (simp add: db_commit_Inl)
next
  case (Cons r rs)
  show ?case
  proof (cases "db_fault env (db_ops st)")
    case True
    then show ?thesis using Cons.prems by (auto simp: db_call_def)
  next
    case False
    define st1 where "st1 = st\<lparr>db_ops := Suc (db_ops st)\<rparr>"
    have c: "db_call env st = (False, st1)" using False by (simp add: db_call_def st1_def)
    show ?thesis
    proof (cases "find (\<lambda>s. src_name s = source r) (tbl_api_sources st1)")
      case None
      then have "save_source_results env qid rs st1 = (Inl e, st')"
        using Cons.prems c by simp
      then have "tbl_rows st' = tbl_rows st1" by (rule Cons.IH)
      then show ?thesis by (simp add: st1_def)
    next
      case (Some s)
      define td where "td = \<lparr> td_id = uuid4 env (uuid_count st1),
                        td_ioc_query_id = qid,
                        td_source_api = source r,
                        td_raw_data_json = raw r,
                        td_processed_data_json = (status r, risk_score r, description r),
                        td_confidence_score = risk_score r \<rparr>"
      define st2 where "st2 = db_add (ThreatIntelligenceDataRow td)
                            (st1\<lparr>uuid_count := Suc (uuid_count st1)\<rparr>)"
      have "save_source_results env qid rs st2 = (Inl e, st')"
        using Cons.prems c Some by (simp add: Let_def td_def st2_def)
      then have "tbl_rows st' = tbl_rows st2" by (rule Cons.IH)
      then show ?thesis by (simp add: st2_def st1_def db_add_def)
    qed
  qed
qed

lemma save_query_to_db_body_Inl:
  assumes "save_query_to_db_body env uid payload response st = (Inl e, st')"
  shows "tbl_rows st' = tbl_rows st"
proof -
  define q where "q = \<lparr> iq_id = uuid4 env (uuid_count st),
              iq_user_id = uid,
              iq_ioc_type = payload_ioc_type payload,
              iq_ioc_value = payload_ioc_value payload,
              iq_query_date = queried_at response,
              iq_results_json = (overall_risk response, queried_sources response),
              iq_risk_score = (if str_truthy (overall_risk response)
                               then get_risk_score_from_level env (overall_risk response)
                               else None),
              iq_status = (if str_truthy (overall_risk response)
                           then the (overall_risk response) else ''pending'') \<rparr>"
  define st1 where "st1 = db_add (IOCQueryRow q) (st\<lparr>uuid_count := Suc (uuid_count st)\<rparr>)"
  obtain r st2 where f: "db_flush env st1 = (r, st2)"
    by (cases "db_flush env st1")
  have r2: "tbl_rows st2 = tbl_rows st"
    using db_flush_rows [of env st1] f by (simp add: st1_def db_add_def)
  have body: "save_query_to_db_body env uid payload response st =
      (case r of Inl e \<Rightarrow> (Inl e, st2)
               | Inr u \<Rightarrow> save_source_results env (iq_id q) (queried_sources response) st2)"
    by (simp add: save_query_to_db_body_def Let_def q_def [symmetric] st1_def [symmetric] f)
  show ?thesis
  proof (cases r)
    case (Inl e')
    then show ?thesis using body assms r2 by simp
  next
    case (Inr u)
    then have "save_source_results env (iq_id q) (queried_sources response) st2 = (Inl e, st')"
      using body assms by simp
    then have "tbl_rows st' = tbl_rows st2" by (rule save_source_results_Inl)
    then show ?thesis using r2 by simp
  qed
qed


section \<open>The result of a request\<close>







section \<open>The overall verdict\<close>

text \<open>
  C1. A list holding only a result with status \<open>skipped\<close> (the input of the repository's
  own test, which expects no verdict) gets the verdict \<open>unknown\<close>: a skipped result is a
  result whose status is not \<open>success\<close>.
\<close>

theorem calculate_overall_risk_skipped:
  "calculate_overall_risk env
     [\<lparr> source = ''test1'', status = ''skipped'', risk_score = None,
        description = Some '''', raw = None \<rparr>] = Some ''unknown''"
  by (simp add: calculate_overall_risk_def)

text \<open>
  C2. For a non-empty list of results none of which is a success with a risk score, if some
  result has a status other than \<open>success\<close> then the overall verdict is \<open>unknown\<close>.
\<close>

theorem calculate_overall_risk_unknown:
  assumes "results \<noteq> []"
    and "\<forall>r \<in> set results. \<not> (status r = ''success'' \<and> risk_score r \<noteq> None)"
    and "\<exists>r \<in> set results. status r \<noteq> ''success''"
  shows "calculate_overall_risk env results = Some ''unknown''"
proof -
  have no_valid: "filter (\<lambda>r. risk_score r \<noteq> None \<and> status r = ''success'') results = []"
    using assms(2) by (auto simp: filter_empty_conv)
  have some_failed: "filter (\<lambda>r. status r \<noteq> ''success'') results \<noteq> []"
    using assms(3) by (auto simp: filter_empty_conv)
  show ?thesis
    using assms(1) no_valid some_failed by (simp add: calculate_overall_risk_def)
qed

theorem calculate_overall_risk_unknown_witness:
  "calculate_overall_risk example_env
     [\<lparr> source = ''a'', status = ''success'', risk_score = None, description = None, raw = None \<rparr>,
      \<lparr> source = ''b'', status = ''timeout'', risk_score = None, description = None, raw = None \<rparr>]
   = Some ''unknown''"
  by (rule calculate_overall_risk_unknown) simp_all

section \<open>The template adapter\<close>




section \<open>The orchestrator\<close>

text \<open>
  C9. When a query misses both caches and the registry resolves no eligible source, with or
  without credential, \<open>query_ioc\<close> returns normally: the response holds exactly one source
  result, of source \<open>system\<close> and status \<open>error\<close>, which says that no source was found,
  and its overall verdict is null. No adapter is called.
\<close>

theorem no_eligible_source:
  assumes "\<forall>c. redis_cache_get st (redis_key_of payload) \<noteq> Some (Parsed c)"
    and "ioc_cache_get (payload_ioc_type payload) (payload_ioc_value payload) st = (None, st1)"
    and "get_active_api_keys env (payload_sources payload) auto_mode_only st1 = (Inr [], st2)"
    and "get_sources_without_auth env (payload_sources payload) st2 = (Inr [], st3)"
  shows "\<exists>response.
           query_ioc env user_id payload auto_mode_only st = (Inr response, st3)
           \<and> queried_sources response =
                 [\<lparr> source = ''system'', status = ''error'', risk_score = None,
                    description =
                      Some ''No active API keys or sources found for the requested sources'',
                    raw = None \<rparr>]
           \<and> overall_risk response = None
           \<and> r_ioc_type response = payload_ioc_type payload
           \<and> r_ioc_value response = payload_ioc_value payload
           \<and> adapter_calls st3 = adapter_calls st"
proof -
  have q: "query_ioc env user_id payload auto_mode_only st =
      query_ioc_sources env user_id payload auto_mode_only st1"
    using assms(1,2) by (auto simp: query_ioc_def split: option.splits redis_entry.splits)
  have s: "query_ioc_sources env user_id payload auto_mode_only st1 =
      (Inr (no_sources_response payload st3), st3)"
    using assms(3,4) by (simp add: query_ioc_sources_def combine_sources_def)
  have c: "adapter_calls st3 = adapter_calls st"
    using assms(2,3,4) ioc_cache_get_logs [of st "payload_ioc_type payload" "payload_ioc_value payload"]
      get_active_api_keys_logs [of st1 env "payload_sources payload" auto_mode_only]
      get_sources_without_auth_logs [of st2 env "payload_sources payload"]
    by (simp add: same_logs_def)
  show ?thesis
    using q s c by (simp add: no_sources_response_def)
qed

theorem no_eligible_source_witness:
  "\<exists>response.
     query_ioc example_env ''u1''
       \<lparr> payload_ioc_type = ''ip'', payload_ioc_value = ''8.8.8.8'', payload_sources = None \<rparr>
       False example_world = (Inr response, example_world\<lparr>db_ops := 2\<rparr>)
     \<and> map source (queried_sources response) = [''system'']
     \<and> map status (queried_sources response) = [''error'']
     \<and> overall_risk response = None"
proof -
  define payload where "payload =
    \<lparr> payload_ioc_type = ''ip'', payload_ioc_value = ''8.8.8.8'', payload_sources = None \<rparr>"
  have 1: "\<forall>c. redis_cache_get example_world (redis_key_of payload) \<noteq> Some (Parsed c)"
    by (simp add: redis_cache_get_def example_world_def)
  have 2: "ioc_cache_get (payload_ioc_type payload) (payload_ioc_value payload) example_world
      = (None, example_world)"
    by (simp add: ioc_cache_get_def example_world_def)
  have 3: "get_active_api_keys example_env (payload_sources payload) False example_world
      = (Inr [], example_world\<lparr>db_ops := 1\<rparr>)"
    by (simp add: get_active_api_keys_def db_call_def example_world_def example_env_def payload_def)
  have 4: "get_sources_without_auth example_env (payload_sources payload)
      (example_world\<lparr>db_ops := 1\<rparr>) = (Inr [], example_world\<lparr>db_ops := 2\<rparr>)"
    by (simp add: get_sources_without_auth_def db_call_def example_world_def example_env_def
        payload_def)
  show ?thesis
    using no_eligible_source [OF 1 2 3 4, of "''u1''"] by (auto simp: payload_def)
qed




text \<open>
  C10. When the body of \<open>_save_query_to_db\<close> raises, at the flush, at a lookup of a source
  or at the commit, the session is rolled back: no row stays pending and the committed rows
  are those of before, so neither the query row nor a row of one of its sources is
  persisted. \<open>_save_query_to_db\<close> returns in every case, and \<open>query_ioc\<close> returns the
  response that it had computed and cached before it saved.
\<close>

theorem persistence_failure_rolled_back:
  "(\<forall>e. fst (save_query_to_db_body env user_id payload response st) = Inl e \<longrightarrow>
       session_new (save_query_to_db env user_id payload response st) = []
       \<and> session_flushed (save_query_to_db env user_id payload response st) = []
       \<and> tbl_rows (save_query_to_db env user_id payload response st) = tbl_rows st)
   \<and> (\<forall>api_key_sources st1 sources_without_keys st2.
        get_active_api_keys env (payload_sources payload) auto_mode_only st = (Inr api_key_sources, st1) \<longrightarrow>
        get_sources_without_auth env (payload_sources payload) st1 = (Inr sources_without_keys, st2) \<longrightarrow>
        combine_sources api_key_sources sources_without_keys \<noteq> [] \<longrightarrow>
        (\<exists>result st5.
           query_ioc_sources env user_id payload auto_mode_only st =
             (Inr result, save_query_to_db env user_id payload result st5)
           \<and> queried_sources result =
                fst (query_all_sources env (combine_sources api_key_sources sources_without_keys)
                       (payload_ioc_type payload) (payload_ioc_value payload) st2)
           \<and> overall_risk result = calculate_overall_risk env (queried_sources result)
           \<and> ioc_cache st5 (make_key (payload_ioc_type payload) (payload_ioc_value payload)) =
                Some (result, clock st5)))"
proof (intro conjI allI impI)
  fix e
  assume f: "fst (save_query_to_db_body env user_id payload response st) = Inl e"
  obtain st' where b: "save_query_to_db_body env user_id payload response st = (Inl e, st')"
    using f by (cases "save_query_to_db_body env user_id payload response st") simp
  have s: "save_query_to_db env user_id payload response st = db_rollback st'"
    using b by (simp add: save_query_to_db_def)
  show "session_new (save_query_to_db env user_id payload response st) = []"
    using s by (simp add: db_rollback_def)
  show "session_flushed (save_query_to_db env user_id payload response st) = []"
    using s by (simp add: db_rollback_def)
  show "tbl_rows (save_query_to_db env user_id payload response st) = tbl_rows st"
    using s save_query_to_db_body_Inl [OF b] by (simp add: db_rollback_def)
next
  fix api_key_sources st1 sources_without_keys st2
  assume g1: "get_active_api_keys env (payload_sources payload) auto_mode_only st = (Inr api_key_sources, st1)"
    and g2: "get_sources_without_auth env (payload_sources payload) st1 = (Inr sources_without_keys, st2)"
    and ne: "combine_sources api_key_sources sources_without_keys \<noteq> []"
  obtain results st3 where q: "query_all_sources env (combine_sources api_key_sources sources_without_keys)
      (payload_ioc_type payload) (payload_ioc_value payload) st2 = (results, st3)"
    by (cases "query_all_sources env (combine_sources api_key_sources sources_without_keys)
      (payload_ioc_type payload) (payload_ioc_value payload) st2")
  define result where "result = \<lparr> r_ioc_type = payload_ioc_type payload,
                                 r_ioc_value = payload_ioc_value payload,
                                 overall_risk = calculate_overall_risk env results,
                                 queried_sources = results,
                                 queried_at = clock st3 \<rparr>"
  define st5 where "st5 = redis_cache_set (redis_key_of payload) result (ioc_cache_set result st3)"
  have "query_ioc_sources env user_id payload auto_mode_only st =
             (Inr result, save_query_to_db env user_id payload result st5)"
    using g1 g2 ne q by (simp add: query_ioc_sources_def Let_def result_def st5_def)
  moreover have "queried_sources result =
                fst (query_all_sources env (combine_sources api_key_sources sources_without_keys)
                       (payload_ioc_type payload) (payload_ioc_value payload) st2)"
    using q by (simp add: result_def)
  moreover have "overall_risk result = calculate_overall_risk env (queried_sources result)"
    by (simp add: result_def)
  moreover have "ioc_cache st5 (make_key (payload_ioc_type payload) (payload_ioc_value payload)) =
                Some (result, clock st5)"
    by (simp add: st5_def redis_cache_set_def ioc_cache_set_def result_def)
  ultimately show "\<exists>result st5.
           query_ioc_sources env user_id payload auto_mode_only st =
             (Inr result, save_query_to_db env user_id payload result st5)
           \<and> queried_sources result =
                fst (query_all_sources env (combine_sources api_key_sources sources_without_keys)
                       (payload_ioc_type payload) (payload_ioc_value payload) st2)
           \<and> overall_risk result = calculate_overall_risk env (queried_sources result)
           \<and> ioc_cache st5 (make_key (payload_ioc_type payload) (payload_ioc_value payload)) =
                Some (result, clock st5)"
    by blast
qed


theorem persistence_failure_rolled_back_witness:
  "fst (save_query_to_db_body (example_env\<lparr>db_fault := (\<lambda>n. n = 2)\<rparr>) ''u1''
          \<lparr> payload_ioc_type = ''ip'', payload_ioc_value = ''8.8.8.8'', payload_sources = None \<rparr>
          example_cached_response registry_world) = Inl db_error
   \<and> length (session_flushed (snd (save_query_to_db_body (example_env\<lparr>db_fault := (\<lambda>n. n = 2)\<rparr>) ''u1''
          \<lparr> payload_ioc_type = ''ip'', payload_ioc_value = ''8.8.8.8'', payload_sources = None \<rparr>
          example_cached_response registry_world))) = 1
   \<and> length (session_new (snd (save_query_to_db_body (example_env\<lparr>db_fault := (\<lambda>n. n = 2)\<rparr>) ''u1''
          \<lparr> payload_ioc_type = ''ip'', payload_ioc_value = ''8.8.8.8'', payload_sources = None \<rparr>
          example_cached_response registry_world))) = 1
   \<and> session_new (save_query_to_db (example_env\<lparr>db_fault := (\<lambda>n. n = 2)\<rparr>) ''u1''
          \<lparr> payload_ioc_type = ''ip'', payload_ioc_value = ''8.8.8.8'', payload_sources = None \<rparr>
          example_cached_response registry_world) = []
   \<and> session_flushed (save_query_to_db (example_env\<lparr>db_fault := (\<lambda>n. n = 2)\<rparr>) ''u1''
          \<lparr> payload_ioc_type = ''ip'', payload_ioc_value = ''8.8.8.8'', payload_sources = None \<rparr>
          example_cached_response registry_world) = []
   \<and> tbl_rows (save_query_to_db (example_env\<lparr>db_fault := (\<lambda>n. n = 2)\<rparr>) ''u1''
          \<lparr> payload_ioc_type = ''ip'', payload_ioc_value = ''8.8.8.8'', payload_sources = None \<rparr>
          example_cached_response registry_world) = []
   \<and> (\<exists>result st5.
         query_ioc_sources (example_env\<lparr>db_fault := (\<lambda>n. n = 2)\<rparr>) ''u1''
           \<lparr> payload_ioc_type = ''ip'', payload_ioc_value = ''8.8.8.8'', payload_sources = None \<rparr>
           False registry_world =
         (Inr result, save_query_to_db (example_env\<lparr>db_fault := (\<lambda>n. n = 2)\<rparr>) ''u1''
           \<lparr> payload_ioc_type = ''ip'', payload_ioc_value = ''8.8.8.8'', payload_sources = None \<rparr>
           result st5))"
proof -
  define env where "env = example_env\<lparr>db_fault := (\<lambda>n. n = 2)\<rparr>"
  define payload where "payload =
    \<lparr> payload_ioc_type = ''ip'', payload_ioc_value = ''8.8.8.8'', payload_sources = None \<rparr>"
  have body: "fst (save_query_to_db_body env ''u1'' payload example_cached_response registry_world)
        = Inl db_error"
      "length (session_flushed (snd (save_query_to_db_body env ''u1'' payload
         example_cached_response registry_world))) = 1"
      "length (session_new (snd (save_query_to_db_body env ''u1'' payload
         example_cached_response registry_world))) = 1"
    by (simp_all add: save_query_to_db_body_def db_flush_def db_commit_def db_call_def db_add_def
        Let_def env_def payload_def example_defs example_cached_response_def)
  have g1: "get_active_api_keys env (payload_sources payload) False registry_world =
     (Inr [(example_key ''k1'' ''enc:secret'' AUTO True, example_source),
           (example_key ''k2'' ''enc:other'' MANUAL True, example_source)],
      registry_world\<lparr>db_ops := 1\<rparr>)"
    by (simp add: get_active_api_keys_def db_call_def example_defs env_def payload_def)
  have g2: "get_sources_without_auth env (payload_sources payload) (registry_world\<lparr>db_ops := 1\<rparr>) =
     (Inr [example_open_source], registry_world\<lparr>db_ops := 2\<rparr>)"
    by (simp add: get_sources_without_auth_def db_call_def example_defs env_def payload_def)
  have ne: "combine_sources [(example_key ''k1'' ''enc:secret'' AUTO True, example_source),
           (example_key ''k2'' ''enc:other'' MANUAL True, example_source)] [example_open_source] \<noteq> []"
    by (simp add: combine_sources_def)
  have part1: "session_new (save_query_to_db env ''u1'' payload example_cached_response registry_world) = []"
    "session_flushed (save_query_to_db env ''u1'' payload example_cached_response registry_world) = []"
    "tbl_rows (save_query_to_db env ''u1'' payload example_cached_response registry_world) = []"
    using persistence_failure_rolled_back [where env = env and user_id = "''u1''"
        and payload = payload and response = example_cached_response and st = registry_world,
        THEN conjunct1] body(1)
    by (simp_all add: registry_world_def example_world_def)
  have part2: "\<exists>result st5.
         query_ioc_sources env ''u1'' payload False registry_world =
         (Inr result, save_query_to_db env ''u1'' payload result st5)"
    using persistence_failure_rolled_back [where env = env and user_id = "''u1''"
        and payload = payload and st = registry_world and auto_mode_only = False,
        THEN conjunct2] g1 g2 ne
    by blast
  show ?thesis
    using body part1 part2 unfolding env_def payload_def by blast
qed

section \<open>The source registry\<close>

text \<open>
  C5. Every pair of a credential and a descriptor that \<open>_get_active_api_keys\<close> returns has
  both active flags set and, when \<open>auto_mode_only\<close> is true, a credential in update mode
  \<open>auto\<close>. The scheduler's check of an item queries with \<open>auto_mode_only\<close> true: every
  credential that the check hands to the adapter is active and in update mode \<open>auto\<close>.
\<close>

theorem registry_pairs_active:
  "(\<forall>aks st1 k src.
      get_active_api_keys env sources auto_mode_only st = (Inr aks, st1) \<longrightarrow>
      (k, src) \<in> set aks \<longrightarrow>
      key_is_active k \<and> src_is_active src \<and> (auto_mode_only \<longrightarrow> key_update_mode k = AUTO))
   \<and> (\<forall>n k.
      (n, Some k) \<in> set (adapter_calls (snd (check_watchlist_item env item watchlist st))) \<longrightarrow>
      (n, Some k) \<in> set (adapter_calls st) \<or> (key_is_active k \<and> key_update_mode k = AUTO))"
proof (intro conjI allI impI)
  fix aks st1 k src
  assume "get_active_api_keys env sources auto_mode_only st = (Inr aks, st1)"
    and "(k, src) \<in> set aks"
  then have p: "key_is_active k \<and> src_is_active src \<and> (auto_mode_only \<longrightarrow> key_update_mode k = AUTO)"
    by (rule get_active_api_keys_pairs)
  show "key_is_active k" using p by simp
  show "src_is_active src" using p by simp
  show "key_update_mode k = AUTO" if auto_mode_only using p that by simp
next
  fix n k
  assume "(n, Some k) \<in> set (adapter_calls (snd (check_watchlist_item env item watchlist st)))"
  then show "(n, Some k) \<in> set (adapter_calls st) \<or> (key_is_active k \<and> key_update_mode k = AUTO)"
    by (rule check_watchlist_item_calls)
qed

theorem registry_pairs_active_witness:
  "get_active_api_keys example_env None True registry_world =
     (Inr [(example_key ''k1'' ''enc:secret'' AUTO True, example_source)],
      registry_world\<lparr>db_ops := 1\<rparr>)
   \<and> (''virustotal'', Some (example_key ''k1'' ''enc:secret'' AUTO True))
        \<in> set (adapter_calls (snd (check_watchlist_item example_env (example_item ''c'' None)
                                  example_watchlist registry_world)))
   \<and> (''virustotal'', Some (example_key ''k1'' ''enc:secret'' AUTO True))
        \<notin> set (adapter_calls registry_world)
   \<and> key_is_active (example_key ''k1'' ''enc:secret'' AUTO True)
   \<and> src_is_active example_source
   \<and> key_update_mode (example_key ''k1'' ''enc:secret'' AUTO True) = AUTO"
proof -
  define st0 where "st0 = registry_world\<lparr>item_checks := item_checks registry_world @ [''c'']\<rparr>"
  define rq where "rq = \<lparr> payload_ioc_type = ''ip'', payload_ioc_value = ''8.8.8.8'',
                          payload_sources = None \<rparr>"
  have g0: "get_active_api_keys example_env None True registry_world =
     (Inr [(example_key ''k1'' ''enc:secret'' AUTO True, example_source)],
      registry_world\<lparr>db_ops := 1\<rparr>)"
    by (simp add: get_active_api_keys_def db_call_def example_defs)
  have g1: "get_active_api_keys example_env (payload_sources rq) True st0 =
     (Inr [(example_key ''k1'' ''enc:secret'' AUTO True, example_source)], st0\<lparr>db_ops := 1\<rparr>)"
    by (simp add: get_active_api_keys_def db_call_def example_defs st0_def rq_def)
  have g2: "get_sources_without_auth example_env (payload_sources rq) (st0\<lparr>db_ops := 1\<rparr>) =
     (Inr [example_open_source], st0\<lparr>db_ops := 2\<rparr>)"
    by (simp add: get_sources_without_auth_def db_call_def example_defs st0_def rq_def)
  have miss: "query_ioc example_env ''u1'' rq True st0 = query_ioc_sources example_env ''u1'' rq True st0"
    by (simp add: query_ioc_def redis_cache_get_def ioc_cache_get_def st0_def example_defs)
  have r: "reaches_adapter example_env (example_key ''k1'' ''enc:secret'' AUTO True) example_source ''ip''"
    by (simp add: reaches_adapter_def type_not_supported_def requires_auth_def decrypt_value_def
        strip_def is_space_def lower_def lower_char_def example_defs)
  have calls: "adapter_calls (snd (query_ioc_sources example_env ''u1'' rq True st0)) =
      adapter_calls st0 @ concat (map (source_call example_env (payload_ioc_type rq))
        (combine_sources [(example_key ''k1'' ''enc:secret'' AUTO True, example_source)] [example_open_source]))"
    by (rule query_ioc_sources_calls_eq [OF g1 g2])
  have pt: "payload_ioc_type rq = ''ip''" by (simp add: rq_def)
  have eq: "adapter_calls (snd (check_watchlist_item example_env (example_item ''c'' None)
                                  example_watchlist registry_world)) =
            adapter_calls (snd (query_ioc example_env ''u1'' rq True st0))"
    by (simp add: check_watchlist_item_calls_eq example_item_def example_watchlist_def rq_def st0_def)
  have m: "(''virustotal'', Some (example_key ''k1'' ''enc:secret'' AUTO True))
        \<in> set (adapter_calls (snd (check_watchlist_item example_env (example_item ''c'' None)
                                  example_watchlist registry_world)))"
    using calls miss r pt eq
    by (simp add: combine_sources_def source_call_def) (simp add: example_source_def)
  have n: "(''virustotal'', Some (example_key ''k1'' ''enc:secret'' AUTO True))
        \<notin> set (adapter_calls registry_world)"
    by (simp add: example_defs)
  show ?thesis
    using registry_pairs_active [of example_env None True registry_world "example_item ''c'' None"
        example_watchlist] g0 m n
    by auto
qed

section \<open>The scheduler\<close>





end
